(* ===== verification/Prelude.thy ===== *)
theory Prelude
  imports Main "HOL-Library.Sublist"
begin

text \<open>
  Shared vocabulary of the AGBAC-Min development: the Python values the sources
  pass around and the generic lemmas every component theory uses.
  \<^item> A Python \<open>Dict[str, str]\<close> is an association list in insertion order
    (\<open>pydict\<close>); keys are distinct in every dict the code builds (\<open>dict_wf\<close>).
  \<^item> Python truthiness of strings, optional strings, dicts and lists is written out
    (\<open>py_truthy\<close>, \<open>opt_truthy\<close>), and so is the value of an \<open>a or b or c\<close> chain
    (\<open>py_or\<close>), which returns the first truthy operand or else the last one.
  \<^item> \<open>str.startswith\<close> is \<open>startswith\<close>.
  \<^item> Python exceptions are values of \<open>py_exc\<close>, carrying the message the code
    raises; a result is \<open>py_exc + 'a\<close>, and \<open>exc_bind\<close> sequences fallible
    steps (the first exception propagates), with \<open>return_iff\<close> collecting the
    lemmas that say when a chain returns a value.
  \<^item> \<open>str.join\<close>, \<open>str.strip\<close>, \<open>str.lower\<close>, \<open>str(int)\<close>, \<open>repr\<close> of strings and
    dicts (\<open>py_join\<close>, \<open>py_strip\<close>, \<open>py_lower\<close>, \<open>show_int\<close>, \<open>py_repr_str\<close>,
    \<open>py_dict_repr\<close>) on strings of Latin-1 characters.
\<close>

named_theorems dict_simps "lemmas on Python dicts as association lists"
named_theorems return_iff "when a chain of fallible steps returns a value"

type_synonym pydict = "(string \<times> string) list"

definition dict_keys :: "pydict \<Rightarrow> string list" where
  "dict_keys d = map fst d"

definition dict_has :: "pydict \<Rightarrow> string \<Rightarrow> bool" where
  "dict_has d k \<longleftrightarrow> k \<in> set (dict_keys d)"

definition dict_get :: "pydict \<Rightarrow> string \<Rightarrow> string option" where
  "dict_get d k = map_of d k"

text \<open>\<open>d[k] = v\<close>: an existing key keeps its position, a new key goes last.\<close>

definition dict_set :: "string \<Rightarrow> string \<Rightarrow> pydict \<Rightarrow> pydict" where
  "dict_set k v d =
     (if dict_has d k then map (\<lambda>(k', v'). if k' = k then (k', v) else (k', v')) d
      else d @ [(k, v)])"

definition dict_wf :: "pydict \<Rightarrow> bool" where
  "dict_wf d \<longleftrightarrow> distinct (dict_keys d)"

definition py_truthy :: "'a list \<Rightarrow> bool" where
  "py_truthy xs \<longleftrightarrow> xs \<noteq> []"

definition opt_truthy :: "string option \<Rightarrow> bool" where
  "opt_truthy x \<longleftrightarrow> (case x of None \<Rightarrow> False | Some s \<Rightarrow> s \<noteq> [])"

fun py_or :: "string option list \<Rightarrow> string option" where
  "py_or [] = None"
| "py_or [x] = x"
| "py_or (x # y # ys) = (if opt_truthy x then x else py_or (y # ys))"

text \<open>\<open>a or b or c\<close> whose last operand is a definite string.\<close>

fun py_or_str :: "string option list \<Rightarrow> string \<Rightarrow> string" where
  "py_or_str [] d = d"
| "py_or_str (x # xs) d = (if opt_truthy x then the x else py_or_str xs d)"

text \<open>\<open>sep.join(xs)\<close>.\<close>

fun py_join :: "string \<Rightarrow> string list \<Rightarrow> string" where
  "py_join sep [] = []"
| "py_join sep [x] = x"
| "py_join sep (x # y # xs) = x @ sep @ py_join sep (y # xs)"

text \<open>\<open>repr(s)\<close> of a Python str, for ASCII text: single quotes unless the string
  contains a single quote and no double quote; backslash, the chosen quote, tab,
  newline and carriage return escaped; other control characters as \<open>\xNN\<close>.\<close>

definition hex_digit :: "nat \<Rightarrow> char" where
  "hex_digit n = (if n < 10 then char_of (48 + n) else char_of (87 + n))"

definition py_repr_char :: "char \<Rightarrow> char \<Rightarrow> string" where
  "py_repr_char q c =
     (if c = CHR 0x5C then [CHR 0x5C, CHR 0x5C]
      else if c = q then [CHR 0x5C, q]
      else if c = CHR 0x09 then [CHR 0x5C, CHR ''t'']
      else if c = CHR 0x0A then [CHR 0x5C, CHR ''n'']
      else if c = CHR 0x0D then [CHR 0x5C, CHR ''r'']
      else if of_char c < (32::nat) \<or> of_char c = (127::nat)
        then [CHR 0x5C, CHR ''x'', hex_digit (of_char c div 16), hex_digit (of_char c mod 16)]
      else [c])"

definition py_repr_str :: "string \<Rightarrow> string" where
  "py_repr_str s =
     (let q = (if CHR 0x27 \<in> set s \<and> CHR 0x22 \<notin> set s then CHR 0x22 else CHR 0x27)
      in q # concat (map (py_repr_char q) s) @ [q])"

text \<open>\<open>repr(d)\<close> (and \<open>f"{d}"\<close>) of a \<open>Dict[str, str]\<close>.\<close>

definition py_dict_repr :: "pydict \<Rightarrow> string" where
  "py_dict_repr d = ''{'' @ py_join '', '' (map (\<lambda>(k, v). py_repr_str k @ '': '' @ py_repr_str v) d) @ ''}''"

text \<open>A string \<open>repr\<close> prints verbatim between quotes.\<close>

definition py_plain :: "string \<Rightarrow> bool" where
  "py_plain s \<longleftrightarrow> (\<forall>c \<in> set s. (32::nat) \<le> of_char c \<and> of_char c < (127::nat) \<and>
                      c \<noteq> CHR 0x5C \<and> c \<noteq> CHR 0x27)"

definition startswith :: "string \<Rightarrow> string \<Rightarrow> bool" where
  "startswith s p \<longleftrightarrow> take (length p) s = p"

text \<open>Sequencing of fallible steps: the first exception propagates.\<close>

fun exc_bind :: "'e + 'a \<Rightarrow> ('a \<Rightarrow> 'e + 'b) \<Rightarrow> 'e + 'b" where
  "exc_bind (Inl e) f = Inl e"
| "exc_bind (Inr x) f = f x"

text \<open>\<open>str.isspace\<close> on one character (a char is a Latin-1 code point), and the
  argument-less \<open>str.strip\<close> and \<open>str.lower\<close>.\<close>

definition py_is_space :: "char \<Rightarrow> bool" where
  "py_is_space c \<longleftrightarrow> of_char c \<in> ({9..13} \<union> {28..32} \<union> {133, 160} :: nat set)"

definition py_strip :: "string \<Rightarrow> string" where
  "py_strip s = rev (dropWhile py_is_space (rev (dropWhile py_is_space s)))"

definition py_lower_char :: "char \<Rightarrow> char" where
  "py_lower_char c =
     (let n = (of_char c :: nat)
      in if (65 \<le> n \<and> n \<le> 90) \<or> (192 \<le> n \<and> n \<le> 222 \<and> n \<noteq> 215) then char_of (n + 32) else c)"

definition py_lower :: "string \<Rightarrow> string" where
  "py_lower s = map py_lower_char s"

text \<open>\<open>s.split(sep)[0]\<close>: the text before the first occurrence of \<open>sep\<close>.\<close>

fun str_before :: "string \<Rightarrow> string \<Rightarrow> string" where
  "str_before sep [] = []"
| "str_before sep (c # cs) = (if startswith (c # cs) sep then [] else c # str_before sep cs)"

text \<open>\<open>str(i)\<close> of a Python int: decimal digits, a leading minus sign.\<close>

fun show_nat :: "nat \<Rightarrow> string" where
  "show_nat n = (if n < 10 then [char_of (48 + n)] else show_nat (n div 10) @ [char_of (48 + n mod 10)])"

declare show_nat.simps [simp del]

definition show_int :: "int \<Rightarrow> string" where
  "show_int i = (if i < 0 then ''-'' @ show_nat (nat (- i)) else show_nat (nat i))"

datatype py_exc =
    ValueError string
  | TokenRequestError string "int option"
  | ConfigurationError string
  | HTTPError int
  | RequestException string
  | TypeError string
  | ImportError string
  | AttributeError string

fun exc_class_name :: "py_exc \<Rightarrow> string" where
  "exc_class_name (ValueError _) = ''ValueError''"
| "exc_class_name (TokenRequestError _ _) = ''TokenRequestError''"
| "exc_class_name (ConfigurationError _) = ''ConfigurationError''"
| "exc_class_name (HTTPError _) = ''HTTPError''"
| "exc_class_name (RequestException c) = c"
| "exc_class_name (TypeError _) = ''TypeError''"
| "exc_class_name (ImportError _) = ''ImportError''"
| "exc_class_name (AttributeError _) = ''AttributeError''"

subsection \<open>Lemmas on dicts\<close>

lemma dict_has_Nil [simp, dict_simps]: "\<not> dict_has [] k"
  by (simp add: dict_has_def dict_keys_def)

lemma dict_has_Cons [simp, dict_simps]:
  "dict_has ((k', v) # d) k \<longleftrightarrow> k = k' \<or> dict_has d k"
  by (auto simp: dict_has_def dict_keys_def)

lemma dict_has_append [simp, dict_simps]:
  "dict_has (d @ e) k \<longleftrightarrow> dict_has d k \<or> dict_has e k"
  by (auto simp: dict_has_def dict_keys_def)

lemma dict_get_Nil [simp, dict_simps]: "dict_get [] k = None"
  by (simp add: dict_get_def)

lemma dict_get_Cons [simp, dict_simps]:
  "dict_get ((k', v) # d) k = (if k = k' then Some v else dict_get d k)"
  by (simp add: dict_get_def)

lemma dict_get_append [dict_simps]:
  "dict_get (d @ e) k = (case dict_get d k of None \<Rightarrow> dict_get e k | Some v \<Rightarrow> Some v)"
  by (simp add: dict_get_def map_of_append map_add_def split: option.splits)

lemma dict_has_iff_get: "dict_has d k \<longleftrightarrow> dict_get d k \<noteq> None"
  by (simp add: dict_has_def dict_keys_def dict_get_def map_of_eq_None_iff)

lemma dict_get_None_iff [dict_simps]: "dict_get d k = None \<longleftrightarrow> \<not> dict_has d k"
  by (simp add: dict_has_iff_get)

lemma dict_keys_set [simp, dict_simps]:
  "dict_keys (dict_set k v d) = (if dict_has d k then dict_keys d else dict_keys d @ [k])"
  by (induction d) (auto simp: dict_set_def dict_keys_def dict_has_def)

lemma dict_has_set [simp, dict_simps]: "dict_has (dict_set k v d) k' \<longleftrightarrow> k' = k \<or> dict_has d k'"
  by (auto simp: dict_has_def split: if_splits)

lemma dict_wf_set [dict_simps]: "dict_wf d \<Longrightarrow> dict_wf (dict_set k v d)"
  by (auto simp: dict_wf_def dict_has_def)

lemma dict_get_set_map:
  "dict_get (map (\<lambda>(k', v'). if k' = k then (k', v) else (k', v')) d) k'' =
     (if k'' = k \<and> dict_has d k then Some v else dict_get d k'')"
  by (induction d) auto

lemma dict_get_set [simp, dict_simps]:
  "dict_get (dict_set k v d) k' = (if k' = k then Some v else dict_get d k')"
proof (cases "dict_has d k")
  case True
  then show ?thesis by (simp add: dict_set_def dict_get_set_map)
next
  case False
  then have "dict_get d k = None" by (simp add: dict_get_None_iff)
  with False show ?thesis
    by (auto simp: dict_set_def dict_get_append split: option.splits)
qed

lemma dict_get_Some_has: "dict_get d k = Some v \<Longrightarrow> dict_has d k"
  by (simp add: dict_has_iff_get)

subsection \<open>Lemmas on truthiness and or-chains\<close>

lemma opt_truthy_simps [simp, dict_simps]:
  "\<not> opt_truthy None"
  "opt_truthy (Some s) \<longleftrightarrow> s \<noteq> []"
  by (simp_all add: opt_truthy_def)

lemma py_or_truthy: "opt_truthy (py_or xs) \<longleftrightarrow> (\<exists>x \<in> set xs. opt_truthy x)"
  by (induction xs rule: py_or.induct) auto

lemma py_or_in: "xs \<noteq> [] \<Longrightarrow> py_or xs \<in> set xs"
  by (induction xs rule: py_or.induct) auto

lemma py_or_first:
  "opt_truthy x \<Longrightarrow> py_or (x # xs) = x"
  by (cases xs) auto

lemma py_or_skip:
  "\<not> opt_truthy x \<Longrightarrow> xs \<noteq> [] \<Longrightarrow> py_or (x # xs) = py_or xs"
  by (cases xs) auto

lemma py_or_str_nonempty: "d \<noteq> [] \<Longrightarrow> py_or_str xs d \<noteq> []"
  by (induction xs) (auto simp: opt_truthy_def split: option.splits)

lemma startswith_Cons_Cons [simp]:
  "startswith (a # s) (b # p) \<longleftrightarrow> a = b \<and> startswith s p"
  by (simp add: startswith_def)

lemma startswith_Nil [simp]: "startswith s []"
  by (simp add: startswith_def)

lemma startswith_append [simp]: "startswith (p @ s) p"
  by (simp add: startswith_def)

lemma startswith_nonempty: "startswith s p \<Longrightarrow> p \<noteq> [] \<Longrightarrow> s \<noteq> []"
  by (auto simp: startswith_def)

subsection \<open>Lemmas on joins and reprs\<close>

lemma py_join_sublist: "z \<in> set xs \<Longrightarrow> sublist z (py_join sep xs)"
proof (induction sep xs rule: py_join.induct)
  case (3 sep x y xs)
  show ?case
  proof (cases "z = x")
    case True
    have "sublist x (x @ sep @ py_join sep (y # xs))" by (rule sublist_append_rightI)
    with True show ?thesis by simp
  next
    case False
    with 3(2) have "z \<in> set (y # xs)" by simp
    then have "sublist z (py_join sep (y # xs))" by (rule 3(1))
    moreover have "sublist (py_join sep (y # xs)) (py_join sep (x # y # xs))"
      using sublist_append_leftI [of "py_join sep (y # xs)" "x @ sep"] by simp
    ultimately show ?thesis by (rule sublist_order.order.trans)
  qed
qed auto

lemma py_repr_char_plain_char:
  assumes "(32::nat) \<le> of_char c" "of_char c < (127::nat)" "c \<noteq> CHR 0x5C" "c \<noteq> CHR 0x27"
  shows "py_repr_char (CHR 0x27) c = [c]"
proof -
  have "c \<noteq> CHR 0x09" "c \<noteq> CHR 0x0A" "c \<noteq> CHR 0x0D" using assms(1) by auto
  with assms show ?thesis unfolding py_repr_char_def by simp
qed

lemma py_repr_char_plain: "py_plain s \<Longrightarrow> concat (map (py_repr_char (CHR 0x27)) s) = s"
  by (induction s) (simp_all add: py_plain_def py_repr_char_plain_char)

lemma py_repr_str_plain:
  assumes "py_plain s"
  shows "py_repr_str s = CHR 0x27 # s @ [CHR 0x27]"
proof -
  from assms have "CHR 0x27 \<notin> set s" unfolding py_plain_def by blast
  then show ?thesis using py_repr_char_plain [OF assms] by (simp add: py_repr_str_def Let_def)
qed

lemma py_dict_repr_value:
  assumes "(k, v) \<in> set d"
  shows "sublist (py_repr_str v) (py_dict_repr d)"
proof -
  let ?J = "py_join '', '' (map (\<lambda>(k, v). py_repr_str k @ '': '' @ py_repr_str v) d)"
  have "sublist (py_repr_str v) (py_repr_str k @ '': '' @ py_repr_str v)"
    using sublist_append_leftI [of "py_repr_str v" "py_repr_str k @ '': ''"] by simp
  moreover have "sublist (py_repr_str k @ '': '' @ py_repr_str v) ?J"
    using assms by (intro py_join_sublist) force
  ultimately have "sublist (py_repr_str v) ?J"
    by (rule sublist_order.order.trans)
  moreover have "sublist ?J (''{'' @ ?J @ ''}'')" by (rule sublist_appendI)
  ultimately show ?thesis unfolding py_dict_repr_def
    by (rule sublist_order.order.trans)
qed

lemma py_dict_repr_plain_value:
  assumes "(k, v) \<in> set d" "py_plain v"
  shows "sublist v (py_dict_repr d)"
proof -
  have "sublist v ([CHR 0x27] @ v @ [CHR 0x27])" by (rule sublist_appendI)
  then have "sublist v (py_repr_str v)" using assms(2) by (simp add: py_repr_str_plain)
  then show ?thesis using py_dict_repr_value [OF assms(1)] by (rule sublist_order.order.trans)
qed
subsection \<open>Lemmas on fallible steps and string functions\<close>

lemma exc_bind_Inr_iff [return_iff]: "exc_bind m f = Inr y \<longleftrightarrow> (\<exists>x. m = Inr x \<and> f x = Inr y)"
  by (cases m) auto

lemma exc_bind_split: "P (exc_bind m f) \<longleftrightarrow> (\<forall>e. m = Inl e \<longrightarrow> P (Inl e)) \<and> (\<forall>x. m = Inr x \<longrightarrow> P (f x))"
  by (cases m) auto

lemma exc_bind_split_asm: "P (exc_bind m f) \<longleftrightarrow> \<not> ((\<exists>e. m = Inl e \<and> \<not> P (Inl e)) \<or> (\<exists>x. m = Inr x \<and> \<not> P (f x)))"
  by (cases m) auto

lemmas exc_bind_splits = exc_bind_split exc_bind_split_asm

lemma py_lower_char_space: "py_is_space c \<Longrightarrow> py_lower_char c = c"
  by (auto simp: py_is_space_def py_lower_char_def Let_def)

lemma py_is_space_lower [simp]: "py_is_space (py_lower_char c) \<longleftrightarrow> py_is_space c"
proof (cases "py_lower_char c = c")
  case False
  then have r: "(65 \<le> (of_char c::nat) \<and> (of_char c::nat) \<le> 90) \<or> (192 \<le> (of_char c::nat) \<and> (of_char c::nat) \<le> 222 \<and> (of_char c::nat) \<noteq> 215)"
    and e: "py_lower_char c = char_of ((of_char c::nat) + 32)"
    by (auto simp: py_lower_char_def Let_def split: if_splits)
  have "of_char c < (256::nat)" by (rule nat_of_char_less_256)
  with r have "(of_char c::nat) + 32 < 256" by auto
  then have "(of_char (char_of ((of_char c::nat) + 32))::nat) = of_char c + 32"
    by (simp only: of_char_of mod_less)
  with r e show ?thesis by (auto simp: py_is_space_def)
qed simp

lemma py_lower_char_idem [simp]: "py_lower_char (py_lower_char c) = py_lower_char c"
proof (cases "py_lower_char c = c")
  case False
  then have r: "(65 \<le> (of_char c::nat) \<and> (of_char c::nat) \<le> 90) \<or> (192 \<le> (of_char c::nat) \<and> (of_char c::nat) \<le> 222 \<and> (of_char c::nat) \<noteq> 215)"
    and e: "py_lower_char c = char_of ((of_char c::nat) + 32)"
    by (auto simp: py_lower_char_def Let_def split: if_splits)
  have "of_char c < (256::nat)" by (rule nat_of_char_less_256)
  with r have "(of_char c::nat) + 32 < 256" by auto
  then have "(of_char (char_of ((of_char c::nat) + 32))::nat) = of_char c + 32"
    by (simp only: of_char_of mod_less)
  with r e show ?thesis by (auto simp: py_lower_char_def Let_def)
qed simp

lemma py_lower_idem [simp]: "py_lower (py_lower s) = py_lower s"
  by (simp add: py_lower_def)

lemma py_strip_lower: "py_strip (py_lower s) = py_lower (py_strip s)"
  by (simp add: py_strip_def py_lower_def dropWhile_map rev_map o_def)

lemma dropWhile_last: "dropWhile P xs \<noteq> [] \<Longrightarrow> last (dropWhile P xs) = last xs"
  by (induction xs) auto

lemma dropWhile_hd: "dropWhile P xs \<noteq> [] \<Longrightarrow> \<not> P (hd (dropWhile P xs))"
  by (induction xs) auto

lemma dropWhile_id: "xs = [] \<or> \<not> P (hd xs) \<Longrightarrow> dropWhile P xs = xs"
  by (cases xs) auto

lemma py_strip_ends:
  "py_strip s = [] \<or> (\<not> py_is_space (hd (py_strip s)) \<and> \<not> py_is_space (last (py_strip s)))"
proof (cases "py_strip s = []")
  case False
  let ?a = "dropWhile py_is_space s"
  let ?b = "dropWhile py_is_space (rev ?a)"
  have b: "?b \<noteq> []" using False by (simp add: py_strip_def)
  have a: "?a \<noteq> []"
  proof
    assume h: "?a = []"
    from b show False by (simp only: h rev.simps dropWhile.simps)
  qed
  have "hd (rev ?b) = last ?b" using b by (simp add: hd_rev)
  also have "\<dots> = last (rev ?a)" using b by (rule dropWhile_last)
  also have "\<dots> = hd ?a" using a by (simp add: last_rev)
  finally have "\<not> py_is_space (hd (rev ?b))" using dropWhile_hd [OF a] by simp
  moreover have "\<not> py_is_space (last (rev ?b))" using dropWhile_hd [OF b] b by (simp add: last_rev)
  ultimately show ?thesis by (simp add: py_strip_def)
qed simp

lemma py_strip_idem [simp]: "py_strip (py_strip s) = py_strip s"
proof -
  let ?t = "py_strip s"
  have "dropWhile py_is_space ?t = ?t" using py_strip_ends [of s] by (intro dropWhile_id) auto
  moreover have "dropWhile py_is_space (rev ?t) = rev ?t"
    using py_strip_ends [of s] by (intro dropWhile_id) (auto simp: hd_rev)
  ultimately show ?thesis by (simp add: py_strip_def [of ?t])
qed

lemma py_strip_lower_idem: "py_strip (py_lower (py_strip (py_lower s))) = py_strip (py_lower s)"
  by (simp add: py_strip_lower)

lemma py_strip_pad:
  assumes "list_all py_is_space ws1" "list_all py_is_space ws2"
  shows "py_strip (ws1 @ v @ ws2) = py_strip v"
proof (cases "\<exists>x \<in> set v. \<not> py_is_space x")
  case True
  then obtain x where x: "x \<in> set v" "\<not> py_is_space x" by blast
  have "dropWhile py_is_space (ws1 @ v @ ws2) = dropWhile py_is_space v @ ws2"
    using assms(1) x by (simp add: list_all_iff dropWhile_append1 dropWhile_append2)
  then have "rev (dropWhile py_is_space (ws1 @ v @ ws2)) = rev ws2 @ rev (dropWhile py_is_space v)" by simp
  moreover have "dropWhile py_is_space (rev ws2 @ rev (dropWhile py_is_space v)) =
                   dropWhile py_is_space (rev (dropWhile py_is_space v))"
    by (rule dropWhile_append2) (use assms(2) in \<open>simp add: list_all_iff\<close>)
  ultimately show ?thesis by (simp add: py_strip_def)
next
  case False
  have a: "\<forall>x \<in> set (ws1 @ v @ ws2). py_is_space x" using False assms by (auto simp: list_all_iff)
  have h: "dropWhile py_is_space (ws1 @ v @ ws2) = []" by (subst dropWhile_eq_Nil_conv) (rule a)
  have "py_strip (ws1 @ v @ ws2) = []" unfolding py_strip_def by (simp only: h rev.simps dropWhile.simps)
  moreover have h': "dropWhile py_is_space v = []" by (subst dropWhile_eq_Nil_conv) (use False in blast)
  have "py_strip v = []" unfolding py_strip_def by (simp only: h' rev.simps dropWhile.simps)
  ultimately show ?thesis by simp
qed

lemma py_lower_pad:
  assumes "list_all py_is_space ws1" "list_all py_is_space ws2"
  shows "py_lower (ws1 @ v @ ws2) = ws1 @ py_lower v @ ws2"
proof -
  have "map py_lower_char ws = ws" if "list_all py_is_space ws" for ws
    using that by (induction ws) (auto simp: py_lower_char_space)
  with assms show ?thesis by (simp add: py_lower_def)
qed

lemma show_nat_one [simp]: "show_nat (Suc 0) = ''1''"
  by code_simp

end
