(* ===== verification/Envelope.thy ===== *)
theory Envelope
  imports Prelude
begin

text \<open>
  The identity envelope (src/agbac-min/code/python/base_adapter.py): the normalized
  token result \<open>TokenResponse\<close>, the act-claim check \<open>_validate_act\<close> that every
  adapter runs before a token request, and the rendering of \<open>TokenRequestError\<close>.
  An act claim is a \<open>pydict\<close>; a valid one has a non-empty \<open>sub\<close>.
\<close>

record token_response =
  access_token :: string
  token_type :: string
  expires_in :: int
  scope :: string
  act_assertion :: "string option"

text \<open>\<open>BaseAdapter._validate_act\<close>: the three guards in the order of the code.\<close>

definition validate_act :: "pydict \<Rightarrow> py_exc + unit" where
  "validate_act act =
     (if \<not> py_truthy act then Inl (ValueError ''Act claim cannot be empty'')
      else if \<not> dict_has act ''sub'' then Inl (ValueError ''Act claim must contain 'sub' field'')
      else if \<not> opt_truthy (dict_get act ''sub'')
        then Inl (ValueError ''Act claim 'sub' field cannot be empty'')
      else Inr ())"

text \<open>The spec's ActClaim invariant: \<open>sub\<close> present and non-empty.\<close>

definition act_valid :: "pydict \<Rightarrow> bool" where
  "act_valid act \<longleftrightarrow> (\<exists>s. dict_get act ''sub'' = Some s \<and> s \<noteq> [])"

text \<open>\<open>TokenRequestError.__str__\<close>: a status code of 0 is falsy and is not shown.\<close>

definition token_request_error_str :: "string \<Rightarrow> int option \<Rightarrow> string" where
  "token_request_error_str msg code =
     (case code of
        Some c \<Rightarrow> if c \<noteq> 0 then ''Token request failed (HTTP '' @ show_int c @ ''): '' @ msg
                  else ''Token request failed: '' @ msg
      | None \<Rightarrow> ''Token request failed: '' @ msg)"

text \<open>\<open>TokenResponse.__repr__\<close>: the token and the act assertion are masked;
  an empty act assertion is falsy and prints as \<open>None\<close>.\<close>

definition token_response_repr :: "token_response \<Rightarrow> string" where
  "token_response_repr r =
     ''TokenResponse(token_type='' @ token_type r @ '', expires_in='' @ show_int (expires_in r) @
     '', scope='' @ scope r @ '', access_token=***REDACTED***, act_assertion='' @
     (if opt_truthy (act_assertion r) then ''***REDACTED***'' else ''None'') @ '')''"

subsection \<open>Properties of the envelope\<close>

text \<open>C17 (equivalence): the three guards of \<open>_validate_act\<close> accept exactly the act
  claims that satisfy the spec's ActClaim invariant, a present and non-empty
  \<open>sub\<close>.\<close>

theorem validate_act_iff: "validate_act act = Inr () \<longleftrightarrow> act_valid act"
proof
  assume "validate_act act = Inr ()"
  then show "act_valid act"
    by (auto simp: validate_act_def act_valid_def opt_truthy_def split: if_splits option.splits)
next
  assume "act_valid act"
  then obtain s where s: "dict_get act ''sub'' = Some s" "s \<noteq> []" by (auto simp: act_valid_def)
  from s(1) have "dict_has act ''sub''" by (rule dict_get_Some_has)
  then have "py_truthy act" by (auto simp: py_truthy_def)
  with s \<open>dict_has act ''sub''\<close> show "validate_act act = Inr ()" by (simp add: validate_act_def)
qed


text \<open>C34 (safety, redaction): \<open>TokenResponse.__repr__\<close> does not depend on the
  access token nor on the act assertion beyond whether one is set: replacing either
  secret leaves the printed form unchanged, so neither can reach a log through it.\<close>

theorem token_response_repr_redacts:
  assumes "opt_truthy a = opt_truthy (act_assertion r)"
  shows "token_response_repr (r\<lparr>access_token := t, act_assertion := a\<rparr>) = token_response_repr r"
  using assms by (simp add: token_response_repr_def)

theorem token_response_repr_redacts_witness:
  "token_response_repr \<lparr>access_token = ''eyJsecret'', token_type = ''Bearer'', expires_in = 300, scope = ''read'',
      act_assertion = Some ''eyJact''\<rparr> =
   token_response_repr \<lparr>access_token = ''other'', token_type = ''Bearer'', expires_in = 300, scope = ''read'',
      act_assertion = Some ''x''\<rparr>"
  using token_response_repr_redacts [of "Some ''x''"
      "\<lparr>access_token = ''eyJsecret'', token_type = ''Bearer'', expires_in = 300, scope = ''read'',
        act_assertion = Some ''eyJact''\<rparr>" "''other''"]
  by simp

end
