(* ===== verification/Jwt.thy ===== *)
theory Jwt
  imports Prelude
begin

text \<open>
  The signed-assertion format, as the sources use PyJWT (\<open>jwt.encode\<close>,
  \<open>jwt.decode\<close>). The library is not part of the repository; it is modelled from
  the spec (sections 4.4 and 6) as a symbolic signature scheme in the style of
  the Dolev-Yao protocol models: a token is its header algorithm, its payload and
  the key that signed it, and a signature verifies exactly when it was made by the
  private key of the pair whose public key checks it. Keys are named by \<open>nat\<close>:
  private key \<open>k\<close> and public key \<open>k\<close> form a pair. A string that does not parse
  as a token is \<open>Malformed\<close>.

  \<open>jwt_decode\<close> checks, in PyJWT's order: the header algorithm against the
  allowed list, the signature, then the registered claims \<open>exp\<close> and \<open>aud\<close>. An
  \<open>exp\<close> claim is expired when the current time has reached it (\<open>exp \<le> now\<close>,
  PyJWT 2 and RFC 7519 section 4.1.4); a token without \<open>exp\<close> never expires; a
  token without \<open>aud\<close> is rejected when an audience is expected.
\<close>

datatype jwt_alg = RS256 | HS256 | AlgNone

datatype jwt_key = PrivKey nat | HmacKey string | NoKey

record jwt_payload =
  pl_iss :: "string option"
  pl_sub :: "string option"
  pl_aud :: "string option"
  pl_exp :: "int option"
  pl_iat :: "int option"
  pl_jti :: "string option"
  pl_act :: "pydict option"

datatype jwt = JWT jwt_alg jwt_payload jwt_key | Malformed string

datatype jwt_error =
    DecodeError string
  | InvalidAlgorithmError
  | InvalidSignatureError
  | ExpiredSignatureError
  | InvalidAudienceError
  | MissingRequiredClaimError string

definition jwt_encode :: "jwt_payload \<Rightarrow> jwt_key \<Rightarrow> jwt_alg \<Rightarrow> jwt" where
  "jwt_encode p key alg = JWT alg p key"

definition jwt_sig_valid :: "jwt_alg \<Rightarrow> jwt_key \<Rightarrow> nat \<Rightarrow> bool" where
  "jwt_sig_valid alg key pub \<longleftrightarrow> alg = RS256 \<and> key = PrivKey pub"

definition jwt_expired :: "int option \<Rightarrow> int \<Rightarrow> bool" where
  "jwt_expired exp now \<longleftrightarrow> (case exp of None \<Rightarrow> False | Some e \<Rightarrow> e \<le> now)"

fun jwt_decode :: "jwt \<Rightarrow> nat \<Rightarrow> jwt_alg list \<Rightarrow> string \<Rightarrow> int \<Rightarrow> jwt_error + jwt_payload" where
  "jwt_decode (Malformed s) pub algs aud now = Inl (DecodeError ''Not enough segments'')"
| "jwt_decode (JWT alg p key) pub algs aud now =
     (if alg \<notin> set algs then Inl InvalidAlgorithmError
      else if \<not> jwt_sig_valid alg key pub then Inl InvalidSignatureError
      else if jwt_expired (pl_exp p) now then Inl ExpiredSignatureError
      else (case pl_aud p of
              None \<Rightarrow> Inl (MissingRequiredClaimError ''aud'')
            | Some a \<Rightarrow> if a = aud then Inr p else Inl InvalidAudienceError))"

text \<open>\<open>str(e)\<close> of each PyJWT exception.\<close>

fun jwt_error_str :: "jwt_error \<Rightarrow> string" where
  "jwt_error_str (DecodeError m) = m"
| "jwt_error_str InvalidAlgorithmError = ''The specified alg value is not allowed''"
| "jwt_error_str InvalidSignatureError = ''Signature verification failed''"
| "jwt_error_str ExpiredSignatureError = ''Signature has expired''"
| "jwt_error_str InvalidAudienceError = ''Audience doesn't match''"
| "jwt_error_str (MissingRequiredClaimError c) = ''Token is missing the \"'' @ c @ ''\" claim''"

subsection \<open>Facts on decoding\<close>

lemma jwt_decode_Ok_iff:
  "jwt_decode t pub algs aud now = Inr p \<longleftrightarrow>
     (\<exists>alg key. t = JWT alg p key \<and> alg \<in> set algs \<and> jwt_sig_valid alg key pub \<and>
        \<not> jwt_expired (pl_exp p) now \<and> pl_aud p = Some aud)"
  by (cases t) (auto split: option.splits)

lemma jwt_decode_encode:
  assumes "RS256 \<in> set algs" "\<not> jwt_expired (pl_exp p) now" "pl_aud p = Some aud"
  shows "jwt_decode (jwt_encode p (PrivKey k) RS256) k algs aud now = Inr p"
  using assms by (simp add: jwt_encode_def jwt_sig_valid_def)

lemma jwt_decode_wrong_key:
  assumes "RS256 \<in> set algs" "k' \<noteq> k"
  shows "jwt_decode (JWT RS256 p (PrivKey k')) k algs aud now = Inl InvalidSignatureError"
  using assms by (simp add: jwt_sig_valid_def)

lemma jwt_decode_only_rs256:
  "jwt_decode (JWT alg p key) pub [RS256] aud now = Inr p' \<Longrightarrow> alg = RS256 \<and> key = PrivKey pub"
  by (auto simp: jwt_sig_valid_def split: if_splits option.splits)

end
