(* ===== verification/Verifier.thy ===== *)
theory Verifier
  imports Envelope Jwt
begin

text \<open>
  The agent side of the out-of-session protocol
  (src/agbac-min/code/out_of_session_token_request.py, class
  \<open>OutOfSessionTokenRequest\<close>). Its state is the adapter, the application's
  public key and the set \<open>_used_jtis\<close> of consumed nonces, the replay store of
  the spec's Replay Guard. \<open>receive_and_verify_act_jwt\<close> takes the state and
  returns the result with the new state; the current time is an argument.

  The adapter is the interface of section 4.5 of the spec: a function from agent id,
  act claim and scopes to a \<open>TokenResponse\<close> or the exception it raised.
\<close>

type_synonym adapter_fn = "string \<Rightarrow> pydict \<Rightarrow> string list \<Rightarrow> py_exc + token_response"

record 'ad oos_handler =
  oos_adapter :: 'ad
  app_public_key :: nat
  used_jtis :: "string set"

type_synonym public_key_store = "string \<Rightarrow> string + nat"

text \<open>\<open>OutOfSessionTokenRequest.__init__\<close> with \<open>_load_app_public_key\<close>.\<close>

definition oos_handler_init :: "public_key_store \<Rightarrow> 'ad \<Rightarrow> string \<Rightarrow> py_exc + 'ad oos_handler" where
  "oos_handler_init load adapter path =
     (case load path of
        Inl cls \<Rightarrow> Inl (ValueError (''Cannot load public key: '' @ cls))
      | Inr k \<Rightarrow> Inr \<lparr>oos_adapter = adapter, app_public_key = k, used_jtis = {}\<rparr>)"

text \<open>The \<open>except\<close> clauses of \<open>receive_and_verify_act_jwt\<close>, first match wins.\<close>

fun verify_error :: "jwt_error \<Rightarrow> py_exc" where
  "verify_error ExpiredSignatureError = ValueError ''Act JWT expired''"
| "verify_error InvalidAudienceError = ValueError ''Act JWT invalid audience''"
| "verify_error InvalidSignatureError = ValueError ''Act JWT signature invalid''"
| "verify_error e = ValueError (''Act JWT invalid: '' @ jwt_error_str e)"

text \<open>The replay check on a decoded \<open>jti\<close>: \<open>if jti: if jti in used: raise; used.add(jti)\<close>.
  A missing or empty nonce skips the check and leaves the store as it is.\<close>

definition replay_check :: "string option \<Rightarrow> string set \<Rightarrow> py_exc + string set" where
  "replay_check jti used =
     (case jti of
        Some j \<Rightarrow> if j \<noteq> [] then
                    (if j \<in> used then Inl (ValueError ''Act JWT replay detected'')
                     else Inr (insert j used))
                  else Inr used
      | None \<Rightarrow> Inr used)"

text \<open>The act check: \<open>if not act or 'sub' not in act\<close>.\<close>

definition act_check :: "pydict option \<Rightarrow> py_exc + pydict" where
  "act_check act =
     (case act of
        Some a \<Rightarrow> if py_truthy a \<and> dict_has a ''sub'' then Inr a
                  else Inl (ValueError ''Act JWT must contain act.sub'')
      | None \<Rightarrow> Inl (ValueError ''Act JWT must contain act.sub''))"

definition receive_and_verify_act_jwt ::
  "'ad oos_handler \<Rightarrow> jwt \<Rightarrow> string \<Rightarrow> int \<Rightarrow> (py_exc + pydict) \<times> 'ad oos_handler" where
  "receive_and_verify_act_jwt st act_jwt expected_audience now =
     (case jwt_decode act_jwt (app_public_key st) [RS256] expected_audience now of
        Inl e \<Rightarrow> (Inl (verify_error e), st)
      | Inr decoded \<Rightarrow>
          (case replay_check (pl_jti decoded) (used_jtis st) of
             Inl e \<Rightarrow> (Inl e, st)
           | Inr used' \<Rightarrow> (act_check (pl_act decoded), st\<lparr>used_jtis := used'\<rparr>)))"

text \<open>The \<open>try\<close>/\<open>except\<close> around the adapter call, shared by both orchestrators:
  a \<open>TokenRequestError\<close> passes through, any other exception is wrapped without a
  status code.\<close>

definition call_adapter :: "adapter_fn \<Rightarrow> string \<Rightarrow> pydict \<Rightarrow> string list \<Rightarrow> py_exc + token_response" where
  "call_adapter adapter agent_id act scopes =
     (case adapter agent_id act scopes of
        Inr r \<Rightarrow> Inr r
      | Inl (TokenRequestError m c) \<Rightarrow> Inl (TokenRequestError m c)
      | Inl e \<Rightarrow> Inl (TokenRequestError (''Unexpected error: '' @ exc_class_name e) None))"

definition request_inputs_ok :: "string \<Rightarrow> pydict \<Rightarrow> string list \<Rightarrow> bool" where
  "request_inputs_ok agent_id act scopes \<longleftrightarrow>
     py_truthy agent_id \<and> py_truthy act \<and> dict_has act ''sub'' \<and> py_truthy scopes"

text \<open>\<open>OutOfSessionTokenRequest.request_token\<close>.\<close>

definition oos_request_token ::
  "adapter_fn oos_handler \<Rightarrow> string \<Rightarrow> pydict \<Rightarrow> string list \<Rightarrow> py_exc + token_response" where
  "oos_request_token st agent_id act scopes =
     (if \<not> request_inputs_ok agent_id act scopes then Inl (ValueError ''Invalid inputs'')
      else call_adapter (oos_adapter st) agent_id act scopes)"

text \<open>A sequence of calls on one handler, each on the state the previous call left:
  the agent process receiving assertions one after the other.\<close>

fun verify_run ::
  "'ad oos_handler \<Rightarrow> (jwt \<times> string \<times> int) list \<Rightarrow> (py_exc + pydict) list \<times> 'ad oos_handler" where
  "verify_run st [] = ([], st)"
| "verify_run st ((t, a, n) # cs) =
     (case receive_and_verify_act_jwt st t a n of
        (r, st1) \<Rightarrow> (case verify_run st1 cs of (rs, st2) \<Rightarrow> (r # rs, st2)))"

definition state_at :: "'ad oos_handler \<Rightarrow> (jwt \<times> string \<times> int) list \<Rightarrow> nat \<Rightarrow> 'ad oos_handler" where
  "state_at st cs k = snd (verify_run st (take k cs))"

definition sample_payload :: jwt_payload where
  "sample_payload = \<lparr>pl_iss = Some ''application'', pl_sub = Some ''application'',
     pl_aud = Some ''https://agent.example.com'', pl_exp = Some 160, pl_iat = Some 100,
     pl_jti = Some ''n1'', pl_act = Some [(''sub'', ''alice'')]\<rparr>"

subsection \<open>One call\<close>

lemma jwt_decode_Inr_payload: "jwt_decode (JWT alg p key) pub algs aud now = Inr p' \<Longrightarrow> p' = p"
  by (simp split: if_splits option.splits)

lemma receive_decode_Inl:
  "jwt_decode t (app_public_key st) [RS256] aud now = Inl e \<Longrightarrow>
   receive_and_verify_act_jwt st t aud now = (Inl (verify_error e), st)"
  by (simp add: receive_and_verify_act_jwt_def)

lemma replay_check_mono: "replay_check j used = Inr used' \<Longrightarrow> used \<subseteq> used'"
  by (auto simp: replay_check_def split: option.splits if_splits)

lemma receive_mono:
  "used_jtis st \<subseteq> used_jtis (snd (receive_and_verify_act_jwt st t aud now))"
  by (auto simp: receive_and_verify_act_jwt_def dest: replay_check_mono split: sum.splits)

lemma receive_frame:
  "app_public_key (snd (receive_and_verify_act_jwt st t aud now)) = app_public_key st"
  "oos_adapter (snd (receive_and_verify_act_jwt st t aud now)) = oos_adapter st"
  by (auto simp: receive_and_verify_act_jwt_def split: sum.splits)

lemma receive_consumed:
  assumes "t = JWT alg p key" "pl_jti p = Some n" "n \<noteq> []" "n \<in> used_jtis st"
  shows "fst (receive_and_verify_act_jwt st t aud now) =
           (case jwt_decode t (app_public_key st) [RS256] aud now of
              Inl e \<Rightarrow> Inl (verify_error e)
            | Inr _ \<Rightarrow> Inl (ValueError ''Act JWT replay detected''))"
proof (cases "jwt_decode t (app_public_key st) [RS256] aud now")
  case (Inl e)
  then show ?thesis by (simp add: receive_and_verify_act_jwt_def)
next
  case (Inr d)
  have "d = p" using Inr unfolding assms(1) by (rule jwt_decode_Inr_payload)
  with Inr assms(2-4) show ?thesis
    by (simp add: receive_and_verify_act_jwt_def replay_check_def)
qed

lemma receive_Ok_records:
  assumes "receive_and_verify_act_jwt st t aud now = (Inr a, st')"
    and "t = JWT alg p key" "pl_jti p = Some n" "n \<noteq> []"
  shows "n \<notin> used_jtis st \<and> used_jtis st' = insert n (used_jtis st)"
proof (cases "jwt_decode t (app_public_key st) [RS256] aud now")
  case (Inl e)
  with assms(1) show ?thesis by (simp add: receive_and_verify_act_jwt_def)
next
  case (Inr d)
  have "d = p" using Inr unfolding assms(2) by (rule jwt_decode_Inr_payload)
  with Inr assms show ?thesis
    by (auto simp: receive_and_verify_act_jwt_def replay_check_def split: sum.splits if_splits)
qed

lemmas verify_defs = receive_and_verify_act_jwt_def jwt_sig_valid_def jwt_expired_def
  replay_check_def act_check_def py_truthy_def

subsection \<open>Runs of calls\<close>

lemma verify_run_Cons [simp]:
  "verify_run st ((t, a, n) # cs) =
     (fst (receive_and_verify_act_jwt st t a n) # fst (verify_run (snd (receive_and_verify_act_jwt st t a n)) cs),
      snd (verify_run (snd (receive_and_verify_act_jwt st t a n)) cs))"
  by (simp split: prod.splits)

declare verify_run.simps(2) [simp del]

lemma verify_run_length: "length (fst (verify_run st cs)) = length cs"
  by (induction cs arbitrary: st) (auto simp: split_paired_all)

lemma verify_run_append:
  "verify_run st (xs @ ys) =
     (case verify_run st xs of (r1, s1) \<Rightarrow> (case verify_run s1 ys of (r2, s2) \<Rightarrow> (r1 @ r2, s2)))"
  by (induction xs arbitrary: st) (auto simp: split_paired_all split: prod.splits)

lemma verify_run_mono: "used_jtis st \<subseteq> used_jtis (snd (verify_run st cs))"
proof (induction cs arbitrary: st)
  case Nil
  then show ?case by simp
next
  case (Cons c cs)
  obtain t a n where c: "c = (t, a, n)" by (cases c) auto
  show ?case
    using receive_mono [of st t a n] Cons.IH [of "snd (receive_and_verify_act_jwt st t a n)"]
    by (auto simp: c)
qed

lemma verify_run_nth:
  "k < length cs \<Longrightarrow>
   fst (verify_run st cs) ! k =
     (case cs ! k of (t, a, n) \<Rightarrow> fst (receive_and_verify_act_jwt (state_at st cs k) t a n))"
proof (induction cs arbitrary: st k)
  case Nil
  then show ?case by simp
next
  case (Cons c cs)
  obtain t a n where c: "c = (t, a, n)" by (cases c) auto
  show ?case
  proof (cases k)
    case 0
    then show ?thesis by (simp add: c state_at_def)
  next
    case (Suc k')
    with Cons.prems have "k' < length cs" by simp
    with Cons.IH [of k' "snd (receive_and_verify_act_jwt st t a n)"] Suc show ?thesis
      by (simp add: c state_at_def)
  qed
qed

lemma state_at_Suc:
  "k < length cs \<Longrightarrow>
   state_at st cs (Suc k) =
     (case cs ! k of (t, a, n) \<Rightarrow> snd (receive_and_verify_act_jwt (state_at st cs k) t a n))"
  by (simp add: state_at_def take_Suc_conv_app_nth verify_run_append split: prod.splits)

lemma state_at_mono:
  "k \<le> k' \<Longrightarrow> used_jtis (state_at st cs k) \<subseteq> used_jtis (state_at st cs k')"
proof -
  assume "k \<le> k'"
  then obtain d where "k' = k + d" by (metis le_add_diff_inverse)
  have "take (k + d) cs = take k cs @ take d (drop k cs)" by (simp add: take_add)
  then have "state_at st cs k' = snd (verify_run (state_at st cs k) (take d (drop k cs)))"
    using \<open>k' = k + d\<close> by (simp add: state_at_def verify_run_append split: prod.splits)
  then show ?thesis using verify_run_mono by metis
qed

subsection \<open>Properties of the verifier\<close>

text \<open>C2 (replay protection): in any sequence of calls on one handler, an assertion
  that carries a non-empty nonce is accepted at most once: once a call with it has
  succeeded, every later call with the same assertion fails, whatever its audience and
  time.\<close>

theorem replay_at_most_once:
  assumes "i < j" "j < length calls"
    and "fst (calls ! i) = JWT alg p key" "fst (calls ! j) = JWT alg p key"
    and "pl_jti p = Some n" "n \<noteq> []"
    and "fst (verify_run st calls) ! i = Inr act"
  shows "\<exists>e. fst (verify_run st calls) ! j = Inl e"
proof -
  obtain a1 n1 where ci: "calls ! i = (JWT alg p key, a1, n1)" using assms(3) by (cases "calls ! i") auto
  obtain a2 n2 where cj: "calls ! j = (JWT alg p key, a2, n2)" using assms(4) by (cases "calls ! j") auto
  have il: "i < length calls" using assms(1,2) by simp
  have ok: "fst (receive_and_verify_act_jwt (state_at st calls i) (JWT alg p key) a1 n1) = Inr act"
    using verify_run_nth [OF il, of st] assms(7) ci by simp
  then have "n \<in> used_jtis (snd (receive_and_verify_act_jwt (state_at st calls i) (JWT alg p key) a1 n1))"
    using receive_Ok_records [of "state_at st calls i" "JWT alg p key" a1 n1 act] assms(5,6)
    by (metis prod.collapse insertI1)
  then have "n \<in> used_jtis (state_at st calls (Suc i))" using state_at_Suc [OF il, of st] ci by simp
  then have "n \<in> used_jtis (state_at st calls j)"
    using state_at_mono [of "Suc i" j st calls] assms(1) by auto
  then show ?thesis
    using verify_run_nth [OF assms(2), of st] cj assms(5,6)
      receive_consumed [of "JWT alg p key" alg p key n "state_at st calls j" a2 n2]
    by (simp split: sum.splits)
qed

theorem replay_at_most_once_witness:
  "let st = \<lparr>oos_adapter = (), app_public_key = 7, used_jtis = {}\<rparr>;
       calls = [(JWT RS256 sample_payload (PrivKey 7), ''https://agent.example.com'', 110),
                (JWT RS256 sample_payload (PrivKey 7), ''https://agent.example.com'', 120)]
   in (0::nat) < 1 \<and> 1 < length calls \<and> pl_jti sample_payload = Some ''n1'' \<and>
      fst (verify_run st calls) ! 0 = Inr [(''sub'', ''alice'')] \<and>
      (\<exists>e. fst (verify_run st calls) ! 1 = Inl e)"
proof -
  let ?st = "\<lparr>oos_adapter = (), app_public_key = 7, used_jtis = {}\<rparr> :: unit oos_handler"
  let ?calls = "[(JWT RS256 sample_payload (PrivKey 7), ''https://agent.example.com'', 110::int),
                (JWT RS256 sample_payload (PrivKey 7), ''https://agent.example.com'', 120)]"
  have first: "fst (verify_run ?st ?calls) ! 0 = Inr [(''sub'', ''alice'')]"
    by (simp add: sample_payload_def verify_defs)
  have "\<exists>e. fst (verify_run ?st ?calls) ! 1 = Inl e"
    by (rule replay_at_most_once [of 0 1 ?calls RS256 sample_payload "PrivKey 7" "''n1''"])
       (use first in \<open>simp_all add: sample_payload_def\<close>)
  with first show ?thesis by (simp add: sample_payload_def)
qed

text \<open>C3 (functional): the verifier accepts an assertion exactly when it is an RS256
  token signed by the application's private key, not expired, issued for the expected
  audience, with a nonce that is absent, empty or not yet consumed, and with a
  non-empty act claim that has a \<open>sub\<close> key; the act it returns is the embedded one.\<close>

theorem verify_success_iff:
  "fst (receive_and_verify_act_jwt st t aud now) = Inr a \<longleftrightarrow>
     (\<exists>p. t = JWT RS256 p (PrivKey (app_public_key st)) \<and> \<not> jwt_expired (pl_exp p) now \<and>
        pl_aud p = Some aud \<and> (\<forall>n. pl_jti p = Some n \<and> n \<noteq> [] \<longrightarrow> n \<notin> used_jtis st) \<and>
        pl_act p = Some a \<and> py_truthy a \<and> dict_has a ''sub'')"
  by (cases t) (auto simp: receive_and_verify_act_jwt_def jwt_sig_valid_def replay_check_def
      act_check_def split: option.splits if_splits sum.splits)

theorem verify_success_iff_witness:
  "fst (receive_and_verify_act_jwt \<lparr>oos_adapter = (), app_public_key = 7, used_jtis = {''n0''}\<rparr>
      (JWT RS256 sample_payload (PrivKey 7)) ''https://agent.example.com'' 159) = Inr [(''sub'', ''alice'')]"
proof -
  have "\<exists>p. JWT RS256 sample_payload (PrivKey 7) = JWT RS256 p (PrivKey 7) \<and> \<not> jwt_expired (pl_exp p) 159 \<and>
      pl_aud p = Some ''https://agent.example.com'' \<and>
      (\<forall>n. pl_jti p = Some n \<and> n \<noteq> [] \<longrightarrow> n \<notin> {''n0''}) \<and>
      pl_act p = Some [(''sub'', ''alice'')] \<and> py_truthy [(''sub'', ''alice'')] \<and> dict_has [(''sub'', ''alice'')] ''sub''"
    by (simp add: sample_payload_def jwt_expired_def py_truthy_def)
  then show ?thesis using verify_success_iff [of "\<lparr>oos_adapter = (), app_public_key = 7, used_jtis = {''n0''}\<rparr>"] by simp
qed

text \<open>C4 (safety, signature first): an RS256 assertion signed by any key other than
  the application's private key is rejected as a signature failure, whatever its
  payload claims, and the replay store is left unchanged: no claim of the payload is
  read before the signature has been checked.\<close>

theorem verify_wrong_signer:
  assumes "key \<noteq> PrivKey (app_public_key st)"
  shows "receive_and_verify_act_jwt st (JWT RS256 p key) aud now =
           (Inl (ValueError ''Act JWT signature invalid''), st)"
  using assms by (simp add: receive_and_verify_act_jwt_def jwt_sig_valid_def)

theorem verify_wrong_signer_witness:
  "PrivKey 9 \<noteq> PrivKey (app_public_key \<lparr>oos_adapter = (), app_public_key = 7, used_jtis = {}\<rparr>) \<and>
   receive_and_verify_act_jwt \<lparr>oos_adapter = (), app_public_key = 7, used_jtis = {}\<rparr>
      (JWT RS256 sample_payload (PrivKey 9)) ''https://agent.example.com'' 110 =
   (Inl (ValueError ''Act JWT signature invalid''), \<lparr>oos_adapter = (), app_public_key = 7, used_jtis = {}\<rparr>)"
  using verify_wrong_signer [of "PrivKey 9" "\<lparr>oos_adapter = (), app_public_key = 7, used_jtis = {}\<rparr>"] by simp

text \<open>C5 (safety, algorithm pinning): a token whose header names any algorithm other
  than RS256 (\<open>none\<close>, or the symmetric HS256 of an algorithm-confusion attack) is
  rejected before its signature or claims are looked at, even when it was made with
  the right key, and the replay store is left unchanged.\<close>

theorem verify_rejects_other_algs:
  assumes "alg \<noteq> RS256"
  shows "receive_and_verify_act_jwt st (JWT alg p key) aud now =
           (Inl (ValueError ''Act JWT invalid: The specified alg value is not allowed''), st)"
  using assms by (simp add: receive_and_verify_act_jwt_def)

theorem verify_rejects_other_algs_witness:
  "HS256 \<noteq> RS256 \<and>
   receive_and_verify_act_jwt \<lparr>oos_adapter = (), app_public_key = 7, used_jtis = {}\<rparr>
      (JWT HS256 sample_payload (HmacKey ''public-key-pem'')) ''https://agent.example.com'' 110 =
   (Inl (ValueError ''Act JWT invalid: The specified alg value is not allowed''),
    \<lparr>oos_adapter = (), app_public_key = 7, used_jtis = {}\<rparr>)"
  using verify_rejects_other_algs [of HS256] by simp

text \<open>C6 (error, expiry): a correctly signed assertion presented when the current time
  has reached its \<open>exp\<close> fails with the expiry error, whatever its audience, and
  consumes no nonce.\<close>

theorem verify_expired:
  assumes "pl_exp p = Some e" "e \<le> now"
  shows "receive_and_verify_act_jwt st (JWT RS256 p (PrivKey (app_public_key st))) aud now =
           (Inl (ValueError ''Act JWT expired''), st)"
  using assms by (simp add: receive_and_verify_act_jwt_def jwt_sig_valid_def jwt_expired_def)

theorem verify_expired_witness:
  "pl_exp sample_payload = Some 160 \<and> (160::int) \<le> 161 \<and>
   receive_and_verify_act_jwt \<lparr>oos_adapter = (), app_public_key = 7, used_jtis = {}\<rparr>
      (JWT RS256 sample_payload (PrivKey 7)) ''https://agent.example.com'' 161 =
   (Inl (ValueError ''Act JWT expired''), \<lparr>oos_adapter = (), app_public_key = 7, used_jtis = {}\<rparr>)"
  using verify_expired [of sample_payload 160 161 "\<lparr>oos_adapter = (), app_public_key = 7, used_jtis = {}\<rparr>"]
  by (simp add: sample_payload_def)

text \<open>C7 (error, audience): a correctly signed, unexpired assertion issued for another
  audience fails with the audience error and consumes no nonce.\<close>

theorem verify_audience_mismatch:
  assumes "\<not> jwt_expired (pl_exp p) now" "pl_aud p = Some a" "a \<noteq> aud"
  shows "receive_and_verify_act_jwt st (JWT RS256 p (PrivKey (app_public_key st))) aud now =
           (Inl (ValueError ''Act JWT invalid audience''), st)"
  using assms by (simp add: receive_and_verify_act_jwt_def jwt_sig_valid_def)

theorem verify_audience_mismatch_witness:
  "\<not> jwt_expired (pl_exp sample_payload) 110 \<and> pl_aud sample_payload = Some ''https://agent.example.com'' \<and>
   ''https://agent.example.com'' \<noteq> ''https://other.example.com'' \<and>
   receive_and_verify_act_jwt \<lparr>oos_adapter = (), app_public_key = 7, used_jtis = {}\<rparr>
      (JWT RS256 sample_payload (PrivKey 7)) ''https://other.example.com'' 110 =
   (Inl (ValueError ''Act JWT invalid audience''), \<lparr>oos_adapter = (), app_public_key = 7, used_jtis = {}\<rparr>)"
proof -
  have h: "\<not> jwt_expired (pl_exp sample_payload) 110" by (simp add: sample_payload_def jwt_expired_def)
  show ?thesis
    using h verify_audience_mismatch [OF h, of "''https://agent.example.com''" "''https://other.example.com''"
        "\<lparr>oos_adapter = (), app_public_key = 7, used_jtis = {}\<rparr>"]
    by (simp add: sample_payload_def)
qed

text \<open>C14 (spec divergence, act claim invariant): the verifier accepts an act claim
  whose \<open>sub\<close> is the empty string, which the spec's ActClaim invariant and the
  adapters' own \<open>_validate_act\<close> reject: \<open>receive_and_verify_act_jwt\<close> only checks
  that the key \<open>sub\<close> is present.\<close>

theorem verify_accepts_empty_sub:
  assumes "\<not> jwt_expired (pl_exp p) now" "pl_aud p = Some aud" "pl_jti p = None"
    and "pl_act p = Some [(''sub'', [])]"
  shows "receive_and_verify_act_jwt st (JWT RS256 p (PrivKey (app_public_key st))) aud now =
           (Inr [(''sub'', [])], st) \<and>
         validate_act [(''sub'', [])] = Inl (ValueError ''Act claim 'sub' field cannot be empty'')"
  using assms by (simp add: verify_defs validate_act_def)

theorem verify_accepts_empty_sub_witness:
  "let p = sample_payload\<lparr>pl_jti := None, pl_act := Some [(''sub'', [])]\<rparr>;
       st = \<lparr>oos_adapter = (), app_public_key = 7, used_jtis = {}\<rparr>
   in \<not> jwt_expired (pl_exp p) 110 \<and>
      receive_and_verify_act_jwt st (JWT RS256 p (PrivKey 7)) ''https://agent.example.com'' 110 =
        (Inr [(''sub'', [])], st)"
proof -
  let ?p = "sample_payload\<lparr>pl_jti := None, pl_act := Some [(''sub'', [])]\<rparr>"
  let ?st = "\<lparr>oos_adapter = (), app_public_key = 7, used_jtis = {}\<rparr> :: unit oos_handler"
  have h: "\<not> jwt_expired (pl_exp ?p) 110" by (simp add: sample_payload_def jwt_expired_def)
  show ?thesis
    using h verify_accepts_empty_sub [OF h, of "''https://agent.example.com''" ?st]
    by (simp add: sample_payload_def)
qed

end
