(* ===== verification/HybridSender.thy ===== *)
theory HybridSender
  imports Envelope Jwt
begin

text \<open>
  The application side (src/agbac-min/code/python/hybrid_sender.py, class
  \<open>HybridSender\<close>). Its state is the key path it was built with and the loaded
  private key, if any. The effects of the source become inputs: loading a PEM file
  is a key store mapping a path to a key or to the class name of the exception the
  loader raised; \<open>int(time.time())\<close> is the argument \<open>now\<close>;
  \<open>secrets.token_urlsafe(32)\<close> is the argument \<open>jti\<close>. The session passed to
  \<open>extract_act_from_session\<close> is a string-valued dict.
\<close>

record hybrid_sender =
  private_key_pem :: "string option"
  private_key :: "nat option"

type_synonym key_store = "string \<Rightarrow> string + nat"

text \<open>\<open>HybridSender.__init__\<close> with \<open>_load_private_key\<close>.\<close>

definition hybrid_sender_init :: "key_store \<Rightarrow> string option \<Rightarrow> py_exc + hybrid_sender" where
  "hybrid_sender_init load pem =
     (if opt_truthy pem then
        (case load (the pem) of
           Inl cls \<Rightarrow> Inl (ValueError (''Cannot load private key: '' @ cls))
         | Inr k \<Rightarrow> Inr \<lparr>private_key_pem = pem, private_key = Some k\<rparr>)
      else Inr \<lparr>private_key_pem = pem, private_key = None\<rparr>)"

text \<open>\<open>HybridSender.extract_act_from_session\<close>.\<close>

definition extract_act_from_session :: "pydict \<Rightarrow> py_exc + pydict" where
  "extract_act_from_session session =
     (if \<not> py_truthy session then Inl (ValueError ''Session must be a dictionary'')
      else
        (let email = py_or [dict_get session ''email'', dict_get session ''user_email'',
                            dict_get session ''userPrincipalName'', dict_get session ''mail'']
         in if \<not> opt_truthy email then Inl (ValueError ''Session must contain email'')
         else
           (let e = the email;
                sub = py_or_str [dict_get session ''sub'', dict_get session ''user_id'',
                                 dict_get session ''oid''] e;
                name = py_or [dict_get session ''name'', dict_get session ''display_name'',
                              dict_get session ''displayName''];
                act = [(''sub'', sub), (''email'', e)]
            in Inr (if opt_truthy name then dict_set ''name'' (the name) act else act))))"

text \<open>\<open>HybridSender.prepare_in_session_act\<close>: the act is handed over unchanged.\<close>

definition prepare_in_session_act :: "pydict \<Rightarrow> pydict" where
  "prepare_in_session_act act = act"

text \<open>\<open>HybridSender.prepare_out_of_session_act\<close>: three guards, then the payload
  signed with RS256.\<close>

definition out_of_session_payload :: "pydict \<Rightarrow> string \<Rightarrow> int \<Rightarrow> int \<Rightarrow> string \<Rightarrow> jwt_payload" where
  "out_of_session_payload act agent_endpoint ttl now jti =
     \<lparr>pl_iss = Some ''application'', pl_sub = Some ''application'', pl_aud = Some agent_endpoint,
      pl_exp = Some (now + ttl), pl_iat = Some now, pl_jti = Some jti, pl_act = Some act\<rparr>"

definition prepare_out_of_session_act ::
  "hybrid_sender \<Rightarrow> pydict \<Rightarrow> string \<Rightarrow> int \<Rightarrow> int \<Rightarrow> string \<Rightarrow> py_exc + jwt" where
  "prepare_out_of_session_act sndr act agent_endpoint ttl now jti =
     (case private_key sndr of
        None \<Rightarrow> Inl (ValueError ''HybridSender not configured for out-of-session'')
      | Some k \<Rightarrow>
          if \<not> py_truthy act \<or> \<not> dict_has act ''sub''
            then Inl (ValueError ''Act must contain 'sub' field'')
          else if \<not> py_truthy agent_endpoint \<or> \<not> startswith agent_endpoint ''https://''
            then Inl (ValueError ''Agent endpoint must use HTTPS'')
          else Inr (jwt_encode (out_of_session_payload act agent_endpoint ttl now jti)
                      (PrivKey k) RS256))"

text \<open>\<open>HybridSender._sanitize_identifier\<close>, used only in log records: two
  prefix classes where \<open>BaseAdapter\<close>'s has three; \<open>h\<close> is the SHA-256 hex digest.\<close>

definition hs_sanitize_identifier :: "(string \<Rightarrow> string) \<Rightarrow> string \<Rightarrow> string" where
  "hs_sanitize_identifier h identifier =
     (if identifier = [] then ''unknown''
      else (if CHR ''@'' \<in> set identifier then ''user'' else ''id'') @ ''_'' @ take 12 (h identifier))"

subsection \<open>Lemmas on extraction\<close>

lemma extract_act_shape:
  assumes "extract_act_from_session session = Inr act"
  shows "\<exists>s e. s \<noteq> [] \<and> e \<noteq> [] \<and>
           (act = [(''sub'', s), (''email'', e)] \<or> (\<exists>n. n \<noteq> [] \<and> act = [(''sub'', s), (''email'', e), (''name'', n)]))"
proof -
  from assms have tr: "py_truthy session" by (auto simp: extract_act_from_session_def split: if_splits)
  let ?email = "py_or [dict_get session ''email'', dict_get session ''user_email'',
                       dict_get session ''userPrincipalName'', dict_get session ''mail'']"
  from assms tr have et: "opt_truthy ?email" by (auto simp: extract_act_from_session_def Let_def split: if_splits)
  then obtain e where e: "?email = Some e" "e \<noteq> []" by (auto simp: opt_truthy_def split: option.splits)
  let ?sub = "py_or_str [dict_get session ''sub'', dict_get session ''user_id'', dict_get session ''oid''] e"
  have s: "?sub \<noteq> []" using e(2) by (rule py_or_str_nonempty)
  let ?name = "py_or [dict_get session ''name'', dict_get session ''display_name'', dict_get session ''displayName'']"
  have act: "act = (if opt_truthy ?name then dict_set ''name'' (the ?name) [(''sub'', ?sub), (''email'', e)]
                    else [(''sub'', ?sub), (''email'', e)])"
    using assms tr e by (simp add: extract_act_from_session_def Let_def del: py_or.simps py_or_str.simps)
  show ?thesis
  proof (cases "opt_truthy ?name")
    case True
    then obtain n where "?name = Some n" "n \<noteq> []" by (auto simp: opt_truthy_def split: option.splits)
    with act True s e(2) show ?thesis by (auto simp: dict_set_def)
  next
    case False
    with act s e(2) show ?thesis by auto
  qed
qed

subsection \<open>Properties of the sender\<close>

text \<open>C10 (functional): an act claim extracted from a session is a well-formed dict
  whose keys are among \<open>sub\<close>, \<open>email\<close>, \<open>name\<close>, with a non-empty \<open>email\<close> and a
  non-empty \<open>sub\<close> (the session's subject field, else the email): it satisfies the
  spec's ActClaim invariant and passes the adapters' \<open>_validate_act\<close>.\<close>

theorem extract_act_valid:
  assumes "extract_act_from_session session = Inr act"
  shows "dict_wf act \<and> validate_act act = Inr () \<and> act_valid act \<and> opt_truthy (dict_get act ''email'') \<and>
         set (dict_keys act) \<subseteq> {''sub'', ''email'', ''name''}"
  using extract_act_shape [OF assms]
  by (auto simp: dict_wf_def dict_keys_def validate_act_def act_valid_def py_truthy_def)

theorem extract_act_valid_witness:
  "extract_act_from_session [(''user_email'', ''alice@example.com''), (''oid'', ''42''), (''displayName'', ''Alice'')] =
     Inr [(''sub'', ''42''), (''email'', ''alice@example.com''), (''name'', ''Alice'')] \<and>
   act_valid [(''sub'', ''42''), (''email'', ''alice@example.com''), (''name'', ''Alice'')]"
proof -
  have h: "extract_act_from_session [(''user_email'', ''alice@example.com''), (''oid'', ''42''), (''displayName'', ''Alice'')] =
     Inr [(''sub'', ''42''), (''email'', ''alice@example.com''), (''name'', ''Alice'')]"
    by (simp add: extract_act_from_session_def py_truthy_def dict_set_def)
  show ?thesis using h extract_act_valid [OF h] by simp
qed

text \<open>C11 (error): a non-empty session with none of the email fields \<open>email\<close>,
  \<open>user_email\<close>, \<open>userPrincipalName\<close>, \<open>mail\<close> set to a non-empty value is
  rejected with the missing-email error (the spec's MissingIdentity).\<close>

theorem extract_act_missing_email:
  assumes "py_truthy session"
    and "\<forall>k \<in> {''email'', ''user_email'', ''userPrincipalName'', ''mail''}. \<not> opt_truthy (dict_get session k)"
  shows "extract_act_from_session session = Inl (ValueError ''Session must contain email'')"
proof -
  have "\<not> opt_truthy (py_or [dict_get session ''email'', dict_get session ''user_email'',
                       dict_get session ''userPrincipalName'', dict_get session ''mail''])"
    using assms(2) by (simp add: py_or_truthy)
  with assms(1) show ?thesis by (simp add: extract_act_from_session_def)
qed

theorem extract_act_missing_email_witness:
  "py_truthy [(''sub'', ''u1''), (''mail'', [])] \<and>
   extract_act_from_session [(''sub'', ''u1''), (''mail'', [])] = Inl (ValueError ''Session must contain email'')"
proof -
  have h: "py_truthy [(''sub'', ''u1''), (''mail'', [])]" by (simp add: py_truthy_def)
  show ?thesis using h extract_act_missing_email [OF h] by simp
qed

text \<open>C12 (error): \<open>prepare_out_of_session_act\<close> fails, in this order, when no
  signing key is loaded, when the act has no \<open>sub\<close> key, and when the agent endpoint
  is not an \<open>https://\<close> URL.\<close>

theorem prepare_out_of_session_errors:
  "(private_key sndr = None \<longrightarrow>
      prepare_out_of_session_act sndr act aud ttl now jti = Inl (ValueError ''HybridSender not configured for out-of-session'')) \<and>
   (private_key sndr \<noteq> None \<and> \<not> dict_has act ''sub'' \<longrightarrow>
      prepare_out_of_session_act sndr act aud ttl now jti = Inl (ValueError ''Act must contain 'sub' field'')) \<and>
   (private_key sndr \<noteq> None \<and> dict_has act ''sub'' \<and> \<not> startswith aud ''https://'' \<longrightarrow>
      prepare_out_of_session_act sndr act aud ttl now jti = Inl (ValueError ''Agent endpoint must use HTTPS''))"
  by (auto simp: prepare_out_of_session_act_def py_truthy_def split: option.splits)

theorem prepare_out_of_session_errors_witness:
  "prepare_out_of_session_act \<lparr>private_key_pem = None, private_key = None\<rparr> [(''sub'', ''alice'')]
      ''https://agent.example.com'' 60 100 ''n1'' = Inl (ValueError ''HybridSender not configured for out-of-session'') \<and>
   prepare_out_of_session_act \<lparr>private_key_pem = Some ''k.pem'', private_key = Some 7\<rparr> [(''email'', ''a@b'')]
      ''https://agent.example.com'' 60 100 ''n1'' = Inl (ValueError ''Act must contain 'sub' field'') \<and>
   prepare_out_of_session_act \<lparr>private_key_pem = Some ''k.pem'', private_key = Some 7\<rparr> [(''sub'', ''alice'')]
      ''http://agent.example.com'' 60 100 ''n1'' = Inl (ValueError ''Agent endpoint must use HTTPS'')"
  using prepare_out_of_session_errors [of "\<lparr>private_key_pem = None, private_key = None\<rparr>" "[(''sub'', ''alice'')]"
          "''https://agent.example.com''" 60 100 "''n1''"]
        prepare_out_of_session_errors [of "\<lparr>private_key_pem = Some ''k.pem'', private_key = Some 7\<rparr>" "[(''email'', ''a@b'')]"
          "''https://agent.example.com''" 60 100 "''n1''"]
        prepare_out_of_session_errors [of "\<lparr>private_key_pem = Some ''k.pem'', private_key = Some 7\<rparr>" "[(''sub'', ''alice'')]"
          "''http://agent.example.com''" 60 100 "''n1''"]
  by simp

end
