(* ===== verification/Orchestrators.thy ===== *)
theory Orchestrators
  imports Verifier HybridSender
begin

text \<open>
  The in-session orchestrator (src/agbac-min/code/in_session_token_request.py,
  class \<open>InSessionTokenRequest\<close>): it holds an adapter and forwards a request after
  the same input guard as the out-of-session orchestrator, with its own message.
\<close>

record 'ad in_session_handler =
  is_adapter :: 'ad

definition is_request_token ::
  "adapter_fn in_session_handler \<Rightarrow> string \<Rightarrow> pydict \<Rightarrow> string list \<Rightarrow> py_exc + token_response" where
  "is_request_token h agent_id act scopes =
     (if \<not> request_inputs_ok agent_id act scopes
        then Inl (ValueError ''Invalid inputs: agent_id, act.sub, and scope required'')
      else call_adapter (is_adapter h) agent_id act scopes)"

subsection \<open>Properties of the orchestrators\<close>

lemma call_adapter_cases:
  "call_adapter adapter agent_id act scopes =
     (case adapter agent_id act scopes of
        Inr r \<Rightarrow> Inr r
      | Inl e \<Rightarrow> Inl (case e of TokenRequestError m c \<Rightarrow> TokenRequestError m c
                              | _ \<Rightarrow> TokenRequestError (''Unexpected error: '' @ exc_class_name e) None))"
  by (simp add: call_adapter_def split: sum.splits py_exc.splits)

text \<open>C15 (error, spec divergence): when the adapter fails with an HTTP error from the
  provider (a non-2xx response, as the adapters' \<open>raise_for_status\<close> raises it), both
  orchestrators surface a \<open>TokenRequestError\<close> with no status code: the provider's
  status is dropped, where the spec requires it to be attached.\<close>

theorem adapter_http_error_loses_status:
  assumes "request_inputs_ok agent_id act scopes"
    and "oos_adapter st = adapter" "is_adapter h = adapter"
    and "adapter agent_id act scopes = Inl (HTTPError code)"
  shows "oos_request_token st agent_id act scopes = Inl (TokenRequestError ''Unexpected error: HTTPError'' None) \<and>
         is_request_token h agent_id act scopes = Inl (TokenRequestError ''Unexpected error: HTTPError'' None)"
  using assms by (simp add: oos_request_token_def is_request_token_def call_adapter_def)

theorem adapter_http_error_loses_status_witness:
  "let adapter = (\<lambda>(_::string) (_::pydict) (_::string list). Inl (HTTPError 503) :: py_exc + token_response)
   in request_inputs_ok ''agent-1'' [(''sub'', ''user:alice@example.com'')] [''read''] \<and>
      oos_request_token \<lparr>oos_adapter = adapter, app_public_key = 7, used_jtis = {}\<rparr>
        ''agent-1'' [(''sub'', ''user:alice@example.com'')] [''read''] =
        Inl (TokenRequestError ''Unexpected error: HTTPError'' None)"
proof -
  let ?adapter = "(\<lambda>(_::string) (_::pydict) (_::string list). Inl (HTTPError 503) :: py_exc + token_response)"
  have h: "request_inputs_ok ''agent-1'' [(''sub'', ''user:alice@example.com'')] [''read'']"
    by (simp add: request_inputs_ok_def py_truthy_def)
  show ?thesis
    using h adapter_http_error_loses_status [OF h, of "\<lparr>oos_adapter = ?adapter, app_public_key = 7, used_jtis = {}\<rparr>"
        ?adapter "\<lparr>is_adapter = ?adapter\<rparr>" 503]
    by simp
qed



end
