(* ===== verification/ReplayGuard.thy ===== *)
theory ReplayGuard
  imports Verifier
begin

text \<open>
  The Replay Guard under concurrent calls. In \<open>receive_and_verify_act_jwt\<close> the
  check-and-consume of a nonce is two statements of the source,
  \<open>if jti in self._used_jtis\<close> and \<open>self._used_jtis.add(jti)\<close>
  (src/agbac-min/code/out_of_session_token_request.py, lines 100-104), and the
  interpreter may switch threads between them. Each verification call is a thread
  with its own nonce \<open>jt i\<close>; the shared state is the set of used nonces and
  each thread's position in the guard.
  \<^item> \<open>code_guard_step\<close>: the source's two statements as two separate steps;
  \<^item> \<open>atomic_guard_step\<close>: the spec's \<open>checkAndConsume\<close> contract (section 4.3),
    one step that runs \<open>replay_check\<close> on the shared set.
  Both are step relations over the threads' states, with reachable states from a
  store \<open>U\<close> and every thread not yet started.
\<close>

datatype guard_pc = Fresh | Checked | Accepted | Rejected

record guard_sys =
  g_used :: "string set"
  g_pc :: "nat \<Rightarrow> guard_pc"

definition guard_init :: "string set \<Rightarrow> guard_sys" where
  "guard_init U = \<lparr>g_used = U, g_pc = (\<lambda>_. Fresh)\<rparr>"

inductive code_guard_step :: "(nat \<Rightarrow> string) \<Rightarrow> guard_sys \<Rightarrow> guard_sys \<Rightarrow> bool" for jt where
  check_seen: "g_pc s i = Fresh \<Longrightarrow> jt i \<in> g_used s \<Longrightarrow>
     code_guard_step jt s (s\<lparr>g_pc := (g_pc s)(i := Rejected)\<rparr>)"
| check_new: "g_pc s i = Fresh \<Longrightarrow> jt i \<notin> g_used s \<Longrightarrow>
     code_guard_step jt s (s\<lparr>g_pc := (g_pc s)(i := Checked)\<rparr>)"
| add: "g_pc s i = Checked \<Longrightarrow>
     code_guard_step jt s (s\<lparr>g_used := insert (jt i) (g_used s), g_pc := (g_pc s)(i := Accepted)\<rparr>)"

inductive atomic_guard_step :: "(nat \<Rightarrow> string) \<Rightarrow> guard_sys \<Rightarrow> guard_sys \<Rightarrow> bool" for jt where
  consume_ok: "g_pc s i = Fresh \<Longrightarrow> replay_check (Some (jt i)) (g_used s) = Inr u \<Longrightarrow>
     atomic_guard_step jt s (s\<lparr>g_used := u, g_pc := (g_pc s)(i := Accepted)\<rparr>)"
| consume_replay: "g_pc s i = Fresh \<Longrightarrow> replay_check (Some (jt i)) (g_used s) = Inl e \<Longrightarrow>
     atomic_guard_step jt s (s\<lparr>g_pc := (g_pc s)(i := Rejected)\<rparr>)"

inductive code_reach :: "(nat \<Rightarrow> string) \<Rightarrow> string set \<Rightarrow> guard_sys \<Rightarrow> bool" for jt U where
  init: "code_reach jt U (guard_init U)"
| step: "code_reach jt U s \<Longrightarrow> code_guard_step jt s t \<Longrightarrow> code_reach jt U t"

inductive atomic_reach :: "(nat \<Rightarrow> string) \<Rightarrow> string set \<Rightarrow> guard_sys \<Rightarrow> bool" for jt U where
  init: "atomic_reach jt U (guard_init U)"
| step: "atomic_reach jt U s \<Longrightarrow> atomic_guard_step jt s t \<Longrightarrow> atomic_reach jt U t"

inductive_cases atomic_guard_stepE: "atomic_guard_step jt s t"

definition guard_inv :: "(nat \<Rightarrow> string) \<Rightarrow> guard_sys \<Rightarrow> bool" where
  "guard_inv jt s \<longleftrightarrow>
     (\<forall>i. g_pc s i = Accepted \<and> jt i \<noteq> [] \<longrightarrow> jt i \<in> g_used s) \<and>
     (\<forall>i j. i \<noteq> j \<and> g_pc s i = Accepted \<and> g_pc s j = Accepted \<and> jt i \<noteq> [] \<longrightarrow> jt i \<noteq> jt j)"

lemma guard_inv_init: "guard_inv jt (guard_init U)"
  by (simp add: guard_inv_def guard_init_def)

lemma replay_check_Some:
  "replay_check (Some j) used = Inr u \<Longrightarrow> j \<noteq> [] \<Longrightarrow> j \<notin> used \<and> u = insert j used"
  "replay_check (Some []) used = Inr u \<Longrightarrow> u = used"
  by (auto simp: replay_check_def split: if_splits)

lemma atomic_step_inv: "atomic_guard_step jt s t \<Longrightarrow> guard_inv jt s \<Longrightarrow> guard_inv jt t"
proof (induction rule: atomic_guard_step.induct)
  case (consume_ok s i u)
  show ?case
  proof (cases "jt i = []")
    case True
    with consume_ok show ?thesis
      by (auto simp: guard_inv_def dest: replay_check_Some(2))
  next
    case False
    with consume_ok.hyps(2) have "jt i \<notin> g_used s" "u = insert (jt i) (g_used s)"
      by (auto dest: replay_check_Some(1))
    with consume_ok show ?thesis by (auto simp: guard_inv_def)
  qed
next
  case (consume_replay s i e)
  then show ?case by (auto simp: guard_inv_def)
qed

lemma atomic_reach_inv: "atomic_reach jt U s \<Longrightarrow> guard_inv jt s"
proof (induction rule: atomic_reach.induct)
  case init
  then show ?case by (rule guard_inv_init)
next
  case (step s t)
  then show ?case by (blast intro: atomic_step_inv)
qed

subsection \<open>Properties of the guard\<close>



text \<open>C8 (safety, code bug): the source's guard is not atomic. Two concurrent
  verifications of assertions with the same nonce can both pass it: both threads run
  the membership test before either adds the nonce, and both are accepted. The
  spec (section 4.3) requires that exactly one of them observe the replay.\<close>

theorem race_double_accept:
  "code_reach (\<lambda>_. ''n1'') {} \<lparr>g_used = {''n1''},
      g_pc = (\<lambda>_. Fresh)(0 := Accepted, 1 := Accepted)\<rparr>"
proof -
  let ?jt = "\<lambda>_::nat. ''n1''"
  let ?s0 = "guard_init {}"
  let ?s1 = "?s0\<lparr>g_pc := (g_pc ?s0)(0 := Checked)\<rparr>"
  let ?s2 = "?s1\<lparr>g_pc := (g_pc ?s1)(1 := Checked)\<rparr>"
  let ?s3 = "?s2\<lparr>g_used := insert (?jt 0) (g_used ?s2), g_pc := (g_pc ?s2)(0 := Accepted)\<rparr>"
  let ?s4 = "?s3\<lparr>g_used := insert (?jt 1) (g_used ?s3), g_pc := (g_pc ?s3)(1 := Accepted)\<rparr>"
  have "code_reach ?jt {} ?s0" by (rule code_reach.init)
  then have "code_reach ?jt {} ?s1"
    by (rule code_reach.step) (rule code_guard_step.check_new, simp_all add: guard_init_def)
  then have "code_reach ?jt {} ?s2"
    by (rule code_reach.step) (rule code_guard_step.check_new, simp_all add: guard_init_def)
  then have "code_reach ?jt {} ?s3"
    by (rule code_reach.step) (rule code_guard_step.add, simp add: guard_init_def)
  then have "code_reach ?jt {} ?s4"
    by (rule code_reach.step) (rule code_guard_step.add, simp add: guard_init_def)
  moreover have "?s4 = \<lparr>g_used = {''n1''}, g_pc = (\<lambda>_. Fresh)(0 := Accepted, 1 := Accepted)\<rparr>"
    by (simp add: guard_init_def fun_upd_twist)
  ultimately show ?thesis by simp
qed

end
