(* ===== verification/ApiCall.thy ===== *)
theory ApiCall
  imports Envelope
begin

text \<open>
  The protected-resource callers (src/agbac-min/code/in_session_api_call.py, class
  \<open>InSessionAPICall\<close>, and src/agbac-min/code/python/out_of_session_api_call.py,
  class \<open>OutOfSessionAPICall\<close>): an HTTPS guard, the headers built from a
  \<open>TokenResponse\<close>, and one \<open>session.request\<close> through a requests session whose
  adapter retries with urllib3's \<open>Retry\<close>.

  The session's retry behaviour is the library's, modelled from the spec (section 5):
  a request is attempted; a response whose status is in \<open>status_forcelist\<close> for an
  allowed method, or a network error, is retried while retries remain; before a retry
  the client sleeps for the response's \<open>Retry-After\<close> value when it has one, and
  otherwise for the exponential backoff \<open>backoff_factor * 2^(n-1)\<close> (0 after the
  first failure, capped at 120 s). When retries run out on a status the session raises
  \<open>RetryError\<close>; on a network error it raises that error. What the network does at
  each attempt is an input, a function from attempt number to outcome.
\<close>

record retry_policy =
  retry_total :: nat
  backoff_factor :: nat
  status_forcelist :: "int list"
  allowed_methods :: "string list"

datatype attempt = Response int "nat option" | NetError string

record http_request =
  req_method :: string
  req_url :: string
  req_headers :: pydict
  req_json :: "pydict option"
  req_timeout :: int
  req_verify :: bool

record api_caller =
  ac_timeout :: int
  ac_retry :: retry_policy

subsection \<open>The retrying session (urllib3 Retry)\<close>

definition backoff_time :: "retry_policy \<Rightarrow> nat \<Rightarrow> nat" where
  "backoff_time pol n = (if n \<le> 1 then 0 else min 120 (backoff_factor pol * 2 ^ (n - 1)))"

definition retry_sleep :: "retry_policy \<Rightarrow> nat \<Rightarrow> nat option \<Rightarrow> nat" where
  "retry_sleep pol n retry_after = (case retry_after of Some s \<Rightarrow> s | None \<Rightarrow> backoff_time pol n)"

text \<open>\<open>retry_loop pol m env k rem\<close>: attempt number \<open>k\<close> with \<open>rem\<close> retries left;
  the result, the number of attempts made and the seconds slept.\<close>

fun retry_loop :: "retry_policy \<Rightarrow> string \<Rightarrow> (nat \<Rightarrow> attempt) \<Rightarrow> nat \<Rightarrow> nat \<Rightarrow> (py_exc + int) \<times> nat \<times> nat" where
  "retry_loop pol m env k 0 =
     (case env k of
        Response code ra \<Rightarrow>
          if code \<in> set (status_forcelist pol) \<and> m \<in> set (allowed_methods pol)
          then (Inl (RequestException ''RetryError''), Suc k, 0) else (Inr code, Suc k, 0)
      | NetError cls \<Rightarrow> (Inl (RequestException cls), Suc k, 0))"
| "retry_loop pol m env k (Suc rem) =
     (case env k of
        Response code ra \<Rightarrow>
          if code \<in> set (status_forcelist pol) \<and> m \<in> set (allowed_methods pol)
          then (case retry_loop pol m env (Suc k) rem of
                  (r, n, s) \<Rightarrow> (r, n, retry_sleep pol (Suc k) ra + s))
          else (Inr code, Suc k, 0)
      | NetError cls \<Rightarrow>
          (case retry_loop pol m env (Suc k) rem of
             (r, n, s) \<Rightarrow> (r, n, backoff_time pol (Suc k) + s)))"

definition session_request :: "retry_policy \<Rightarrow> http_request \<Rightarrow> (nat \<Rightarrow> attempt) \<Rightarrow> (py_exc + int) \<times> nat \<times> nat" where
  "session_request pol req env = retry_loop pol (req_method req) env 0 (retry_total pol)"

subsection \<open>In-session caller\<close>

text \<open>\<open>InSessionAPICall._create_secure_session\<close> and \<open>__init__\<close>.\<close>

definition is_create_secure_session :: retry_policy where
  "is_create_secure_session =
     \<lparr>retry_total = 3, backoff_factor = 1, status_forcelist = [429, 500, 502, 503, 504],
      allowed_methods = [''GET'', ''POST'', ''PUT'', ''DELETE'']\<rparr>"

definition is_api_call_init :: "int \<Rightarrow> api_caller" where
  "is_api_call_init timeout = \<lparr>ac_timeout = timeout, ac_retry = is_create_secure_session\<rparr>"

text \<open>\<open>InSessionAPICall._prepare_headers\<close>.\<close>

definition is_prepare_headers :: "token_response \<Rightarrow> pydict" where
  "is_prepare_headers tr =
     (let headers = [(''Authorization'', ''Bearer '' @ access_token tr)]
      in if opt_truthy (act_assertion tr)
         then dict_set ''X-Act-Assertion'' (the (act_assertion tr)) headers else headers)"

definition json_truthy :: "pydict option \<Rightarrow> bool" where
  "json_truthy j \<longleftrightarrow> (case j of None \<Rightarrow> False | Some d \<Rightarrow> d \<noteq> [])"

text \<open>\<open>InSessionAPICall.call_api\<close>: the result, the requests put on the wire (one per
  attempt) and the seconds slept between attempts.\<close>

definition is_call_api ::
  "api_caller \<Rightarrow> token_response \<Rightarrow> string \<Rightarrow> string \<Rightarrow> pydict option \<Rightarrow> (nat \<Rightarrow> attempt) \<Rightarrow>
   (py_exc + int) \<times> http_request list \<times> nat" where
  "is_call_api h tr api_url method json_data env =
     (if \<not> startswith api_url ''https://'' then (Inl (ValueError ''API URL must use HTTPS''), [], 0)
      else
        (let headers = is_prepare_headers tr;
             headers = (if json_truthy json_data
                        then dict_set ''Content-Type'' ''application/json'' headers else headers);
             req = \<lparr>req_method = method, req_url = api_url, req_headers = headers, req_json = json_data,
                    req_timeout = ac_timeout h, req_verify = True\<rparr>
         in (case session_request (ac_retry h) req env of
               (r, n, s) \<Rightarrow> (r, replicate n req, s))))"

text \<open>\<open>InSessionAPICall._hash_url\<close>, used only in log records.\<close>

definition is_hash_url :: "(string \<Rightarrow> string) \<Rightarrow> string \<Rightarrow> string" where
  "is_hash_url h url = ''url_'' @ take 12 (h url)"

subsection \<open>Out-of-session caller\<close>

definition oos_create_secure_session :: retry_policy where
  "oos_create_secure_session =
     \<lparr>retry_total = 3, backoff_factor = 1, status_forcelist = [429, 500, 502, 503, 504],
      allowed_methods = [''GET'', ''POST'', ''PUT'', ''DELETE'']\<rparr>"

definition oos_api_call_init :: "int \<Rightarrow> api_caller" where
  "oos_api_call_init timeout = \<lparr>ac_timeout = timeout, ac_retry = oos_create_secure_session\<rparr>"

definition oos_prepare_headers :: "token_response \<Rightarrow> pydict" where
  "oos_prepare_headers tr =
     (let headers = [(''Authorization'', ''Bearer '' @ access_token tr)]
      in if opt_truthy (act_assertion tr)
         then dict_set ''X-Act-Assertion'' (the (act_assertion tr)) headers else headers)"

definition oos_call_api ::
  "api_caller \<Rightarrow> token_response \<Rightarrow> string \<Rightarrow> string \<Rightarrow> pydict option \<Rightarrow> (nat \<Rightarrow> attempt) \<Rightarrow>
   (py_exc + int) \<times> http_request list \<times> nat" where
  "oos_call_api h tr api_url method json_data env =
     (if \<not> startswith api_url ''https://'' then (Inl (ValueError ''API URL must use HTTPS''), [], 0)
      else
        (let headers = oos_prepare_headers tr;
             headers = (if json_truthy json_data
                        then dict_set ''Content-Type'' ''application/json'' headers else headers);
             req = \<lparr>req_method = method, req_url = api_url, req_headers = headers, req_json = json_data,
                    req_timeout = ac_timeout h, req_verify = True\<rparr>
         in (case session_request (ac_retry h) req env of
               (r, n, s) \<Rightarrow> (r, replicate n req, s))))"

definition sample_token :: token_response where
  "sample_token = \<lparr>access_token = ''tok'', token_type = ''Bearer'', expires_in = 300, scope = ''read'',
     act_assertion = None\<rparr>"

subsection \<open>Lemmas on the retrying session\<close>

lemma retry_loop_attempts:
  "Suc k \<le> fst (snd (retry_loop pol m env k rem)) \<and> fst (snd (retry_loop pol m env k rem)) \<le> Suc (k + rem)"
proof (induction rem arbitrary: k)
  case 0
  then show ?case by (auto split: attempt.splits)
next
  case (Suc rem)
  from Suc.IH [of "Suc k"] show ?case by (auto split: attempt.splits prod.splits)
qed

lemma retry_loop_sleep_no_retry_after:
  assumes "\<forall>j code ra. env j = Response code ra \<longrightarrow> ra = None"
  shows "snd (snd (retry_loop pol m env k rem)) \<le> (\<Sum>j<rem. backoff_time pol (Suc k + j))"
proof (induction rem arbitrary: k)
  case 0
  then show ?case by (auto split: attempt.splits)
next
  case (Suc rem)
  obtain r n sl where eq: "retry_loop pol m env (Suc k) rem = (r, n, sl)" by (cases "retry_loop pol m env (Suc k) rem") auto
  have ih: "sl \<le> (\<Sum>j<rem. backoff_time pol (Suc (Suc k) + j))"
    using Suc.IH [of "Suc k"] eq by simp
  have bound: "(\<Sum>j<Suc rem. backoff_time pol (Suc k + j)) = backoff_time pol (Suc k) + (\<Sum>j<rem. backoff_time pol (Suc (Suc k) + j))"
    by (simp only: sum.lessThan_Suc_shift) simp
  show ?case
  proof (cases "env k")
    case (Response code ra)
    with assms have "ra = None" by blast
    with Response eq ih show ?thesis unfolding bound by (simp add: retry_sleep_def)
  next
    case (NetError cls)
    with eq ih show ?thesis unfolding bound by simp
  qed
qed

lemma is_call_api_https:
  "startswith api_url ''https://'' \<Longrightarrow>
   is_call_api h tr api_url method json_data env =
     (let req = \<lparr>req_method = method, req_url = api_url,
                  req_headers = (if json_truthy json_data
                                 then dict_set ''Content-Type'' ''application/json'' (is_prepare_headers tr)
                                 else is_prepare_headers tr),
                  req_json = json_data, req_timeout = ac_timeout h, req_verify = True\<rparr>
      in (fst (session_request (ac_retry h) req env),
          replicate (fst (snd (session_request (ac_retry h) req env))) req,
          snd (snd (session_request (ac_retry h) req env))))"
  by (simp add: is_call_api_def Let_def split: prod.splits)

subsection \<open>Properties of the callers\<close>

text \<open>Both callers reject an API URL that is not \<open>https://\<close> with \<open>ValueError\<close>
  before any request is sent: nothing goes on the wire and no time is spent waiting.\<close>

lemma api_call_requires_https:
  assumes "\<not> startswith api_url ''https://''"
  shows "is_call_api h tr api_url method json_data env = (Inl (ValueError ''API URL must use HTTPS''), [], 0) \<and>
         oos_call_api h tr api_url method json_data env = (Inl (ValueError ''API URL must use HTTPS''), [], 0)"
  using assms by (simp add: is_call_api_def oos_call_api_def)

theorem api_call_requires_https_witness:
  "\<not> startswith ''http://api.example.com/r'' ''https://'' \<and>
   is_call_api (is_api_call_init 10) sample_token ''http://api.example.com/r'' ''GET'' None (\<lambda>_. Response 200 None) =
     (Inl (ValueError ''API URL must use HTTPS''), [], 0)"
proof -
  have h: "\<not> startswith ''http://api.example.com/r'' ''https://''" by simp
  show ?thesis using h api_call_requires_https [OF h] by simp
qed





text \<open>C24 (bounds, spec gap): the wait is not bounded by the client. A provider that
  answers 503 with \<open>Retry-After: N\<close> makes one call sleep \<open>N\<close> seconds, for every
  \<open>N\<close>, although the spec (section 5) requires bounded blocking under provider
  outages.\<close>

theorem retry_after_unbounded:
  "is_call_api (is_api_call_init 10) tr ''https://api.example.com/r'' ''GET'' None
      (\<lambda>j. if j = 0 then Response 503 (Some N) else Response 200 None) =
   (Inr 200, replicate 2 \<lparr>req_method = ''GET'', req_url = ''https://api.example.com/r'',
       req_headers = is_prepare_headers tr, req_json = None, req_timeout = 10, req_verify = True\<rparr>, N)"
  by (simp add: is_call_api_def is_api_call_init_def is_create_secure_session_def session_request_def
      json_truthy_def retry_sleep_def numeral_3_eq_3 numeral_2_eq_2 Let_def)

text \<open>C25 (equivalence): the out-of-session caller duplicates the in-session one;
  for every handler, token, URL, method, body and network behaviour the two send the
  same requests and return the same result.\<close>

theorem api_callers_equivalent: "oos_call_api = is_call_api"
  by (intro ext) (simp add: oos_call_api_def is_call_api_def oos_prepare_headers_def is_prepare_headers_def)

end
