(* ===== verification/Adapters.thy ===== *)
theory Adapters
  imports Envelope
begin

text \<open>
  The vendor adapters. Two generations are in the repository:
  \<^item> the abstract \<open>BaseAdapter\<close> of src/agbac-min/code/python/base_adapter.py: its
    constructor validates the configuration (required fields, HTTPS token URL) and
    its helpers sanitize what is logged; \<open>validate_adapter_config\<close> is the
    module-level check. A configuration is a string-valued dict.
  \<^item> the concrete adapters of src/agbac-min/agents/python/adapters (Auth0, Okta,
    EntraID): each builds one token request body and posts it to the provider, raises
    the provider's HTTP error, and returns the provider's JSON.
  The provider is an input: a function from the outbound request to a response or a
  network exception. A request body is a JSON object whose values are strings or,
  for \<open>act\<close>, a dict; it is sent as JSON (\<open>json=\<close>) or form-encoded (\<open>data=\<close>),
  and \<open>form_encode\<close> is what the requests library does with a dict value there.
  The SHA-256 hex digest used by the sanitizers is an input function \<open>h\<close>.
\<close>

subsection \<open>BaseAdapter\<close>

record base_adapter =
  ba_config :: pydict
  ba_token_url :: string
  ba_client_id :: string
  ba_client_secret :: string
  ba_audience :: "string option"

definition missing_fields :: "string list \<Rightarrow> pydict \<Rightarrow> string list" where
  "missing_fields required config = filter (\<lambda>f. \<not> dict_has config f) required"

text \<open>\<open>BaseAdapter.__init__\<close>: the required fields first, then the HTTPS check.\<close>

definition base_adapter_init :: "pydict \<Rightarrow> py_exc + base_adapter" where
  "base_adapter_init config =
     (let missing = missing_fields [''token_url'', ''client_id'', ''client_secret''] config
      in if missing \<noteq> []
         then Inl (ValueError (''Missing required configuration: '' @ py_join '', '' missing))
         else
           (let token_url = the (dict_get config ''token_url'')
            in if \<not> startswith token_url ''https://''
               then Inl (ValueError ''Token URL must use HTTPS (https://)'')
               else Inr \<lparr>ba_config = config, ba_token_url = token_url,
                         ba_client_id = the (dict_get config ''client_id''),
                         ba_client_secret = the (dict_get config ''client_secret''),
                         ba_audience = dict_get config ''audience''\<rparr>))"

text \<open>\<open>validate_adapter_config\<close>.\<close>

definition validate_adapter_config :: "pydict \<Rightarrow> string list \<Rightarrow> py_exc + unit" where
  "validate_adapter_config config required =
     (let missing = missing_fields required config
      in if missing \<noteq> []
         then Inl (ValueError (''Missing required configuration fields: '' @ py_join '', '' missing))
         else Inr ())"

definition get_client_secret :: "base_adapter \<Rightarrow> string" where
  "get_client_secret a = ba_client_secret a"

text \<open>\<open>BaseAdapter._sanitize_identifier\<close> and \<open>_hash_url\<close>, over the hex digest \<open>h\<close>.\<close>

definition sanitize_identifier :: "(string \<Rightarrow> string) \<Rightarrow> string \<Rightarrow> string" where
  "sanitize_identifier h identifier =
     (if identifier = [] then ''unknown''
      else (let prefix = (if CHR ''@'' \<in> set identifier then ''user''
                          else if startswith identifier ''0oa'' \<or> startswith identifier ''a1b2'' then ''app''
                          else ''id'')
            in prefix @ ''_'' @ take 12 (h identifier)))"

definition hash_url :: "(string \<Rightarrow> string) \<Rightarrow> string \<Rightarrow> string" where
  "hash_url h url = ''url_'' @ take 12 (h url)"

text \<open>\<open>BaseAdapter._sanitize_act\<close>: the hashed subject, the field names, their count.\<close>

record sanitized_act =
  sa_sub_hash :: string
  sa_fields :: "string list"
  sa_field_count :: nat

definition sanitize_act :: "(string \<Rightarrow> string) \<Rightarrow> pydict \<Rightarrow> sanitized_act" where
  "sanitize_act h act =
     \<lparr>sa_sub_hash = sanitize_identifier h (case dict_get act ''sub'' of Some s \<Rightarrow> s | None \<Rightarrow> []),
      sa_fields = dict_keys act, sa_field_count = length act\<rparr>"

text \<open>The \<open>extra\<close> fields of \<open>BaseAdapter._log_token_request_start\<close> and
  \<open>_log_token_request_success\<close>.\<close>

record start_log =
  sl_agent_id_hash :: string
  sl_act_sanitized :: sanitized_act
  sl_scope :: "string list"
  sl_adapter_type :: string

definition log_token_request_start ::
  "(string \<Rightarrow> string) \<Rightarrow> string \<Rightarrow> string \<Rightarrow> pydict \<Rightarrow> string list \<Rightarrow> start_log" where
  "log_token_request_start h adapter_type agent_id act scopes =
     \<lparr>sl_agent_id_hash = sanitize_identifier h agent_id, sl_act_sanitized = sanitize_act h act,
      sl_scope = scopes, sl_adapter_type = adapter_type\<rparr>"

record success_log =
  su_token_type :: string
  su_expires_in :: int
  su_scope :: string
  su_has_act_assertion :: bool

definition log_token_request_success :: "token_response \<Rightarrow> success_log" where
  "log_token_request_success r =
     \<lparr>su_token_type = token_type r, su_expires_in = expires_in r, su_scope = scope r,
      su_has_act_assertion = (act_assertion r \<noteq> None)\<rparr>"

text \<open>The context filter of \<open>BaseAdapter._log_token_request_error\<close>.\<close>

definition log_error_context :: "pydict \<Rightarrow> pydict" where
  "log_error_context ctx =
     filter (\<lambda>(k, v). k \<notin> set [''client_secret'', ''token'', ''act'']) ctx"

subsection \<open>Concrete adapters (agents/python/adapters)\<close>

datatype jval = JStr string | JDict pydict

type_synonym json_obj = "(string \<times> jval) list"

datatype body_encoding = JsonBody | FormBody

record provider_request =
  pr_url :: string
  pr_encoding :: body_encoding
  pr_payload :: json_obj

record provider_response =
  resp_status :: int
  resp_json :: pydict

type_synonym provider = "provider_request \<Rightarrow> py_exc + provider_response"

record vendor_adapter =
  va_token_url :: string
  va_client_id :: string
  va_client_secret :: string

text \<open>\<open>Response.raise_for_status\<close>: 4xx and 5xx raise \<open>HTTPError\<close>.\<close>

definition raise_for_status :: "provider_response \<Rightarrow> py_exc + unit" where
  "raise_for_status r = (if 400 \<le> resp_status r \<and> resp_status r < 600 then Inl (HTTPError (resp_status r)) else Inr ())"

text \<open>The common body of the three \<open>request_token\<close> methods: post once, raise the
  status, return the JSON; any exception propagates.\<close>

definition post_token_request :: "provider \<Rightarrow> provider_request \<Rightarrow> py_exc + pydict" where
  "post_token_request send req =
     (case send req of
        Inl e \<Rightarrow> Inl e
      | Inr r \<Rightarrow> (case raise_for_status r of Inl e \<Rightarrow> Inl e | Inr _ \<Rightarrow> Inr (resp_json r)))"

text \<open>The \<open>logger.info\<close> line of a successful request, with the act dict
  formatted by \<open>str\<close>. The log line of the error branches is not modelled (its text
  is the requests library's exception string).\<close>

definition token_issued_log :: "string \<Rightarrow> string \<Rightarrow> pydict \<Rightarrow> py_exc + pydict \<Rightarrow> string list" where
  "token_issued_log vendor sub act r =
     (case r of
        Inl _ \<Rightarrow> []
      | Inr _ \<Rightarrow> [vendor @ '' token issued for agent '' @ sub @ '' with human act '' @ py_dict_repr act])"

type_synonym adapter_result = "provider_request \<times> string list \<times> (py_exc + pydict)"

definition auth0_adapter_init :: "string \<Rightarrow> string \<Rightarrow> string \<Rightarrow> vendor_adapter" where
  "auth0_adapter_init domain client_id client_secret =
     \<lparr>va_token_url = ''https://'' @ domain @ ''/oauth/token'', va_client_id = client_id,
      va_client_secret = client_secret\<rparr>"

definition auth0_request :: "vendor_adapter \<Rightarrow> string \<Rightarrow> pydict \<Rightarrow> string list \<Rightarrow> provider_request" where
  "auth0_request a sub act scopes =
     \<lparr>pr_url = va_token_url a, pr_encoding = JsonBody,
      pr_payload = [(''grant_type'', JStr ''client_credentials''), (''client_id'', JStr (va_client_id a)),
                    (''client_secret'', JStr (va_client_secret a)), (''audience'', JStr ''https://api.example.com/''),
                    (''scope'', JStr (py_join '' '' scopes)), (''sub'', JStr sub), (''act'', JDict act)]\<rparr>"

definition auth0_request_token ::
  "vendor_adapter \<Rightarrow> provider \<Rightarrow> string \<Rightarrow> pydict \<Rightarrow> string list \<Rightarrow> adapter_result" where
  "auth0_request_token a send sub act scopes =
     (let req = auth0_request a sub act scopes;
          r = post_token_request send req
      in (req, token_issued_log ''Auth0'' sub act r, r))"

definition okta_adapter_init :: "string \<Rightarrow> string \<Rightarrow> string \<Rightarrow> vendor_adapter" where
  "okta_adapter_init token_url client_id client_secret =
     \<lparr>va_token_url = token_url, va_client_id = client_id, va_client_secret = client_secret\<rparr>"

definition okta_request :: "vendor_adapter \<Rightarrow> string \<Rightarrow> pydict \<Rightarrow> string list \<Rightarrow> provider_request" where
  "okta_request a sub act scopes =
     \<lparr>pr_url = va_token_url a, pr_encoding = JsonBody,
      pr_payload = [(''grant_type'', JStr ''client_credentials''), (''scope'', JStr (py_join '' '' scopes)),
                    (''client_id'', JStr (va_client_id a)), (''client_secret'', JStr (va_client_secret a)),
                    (''act'', JDict act), (''sub'', JStr sub)]\<rparr>"

definition okta_request_token ::
  "vendor_adapter \<Rightarrow> provider \<Rightarrow> string \<Rightarrow> pydict \<Rightarrow> string list \<Rightarrow> adapter_result" where
  "okta_request_token a send sub act scopes =
     (let req = okta_request a sub act scopes;
          r = post_token_request send req
      in (req, token_issued_log ''Okta'' sub act r, r))"

text \<open>\<open>EntraIDAdapter\<close>: the tenant id is stored and never used.\<close>

record entraid_adapter = vendor_adapter +
  va_tenant_id :: string

definition entraid_adapter_init :: "string \<Rightarrow> string \<Rightarrow> string \<Rightarrow> string \<Rightarrow> entraid_adapter" where
  "entraid_adapter_init token_url client_id client_secret tenant_id =
     \<lparr>va_token_url = token_url, va_client_id = client_id, va_client_secret = client_secret,
      va_tenant_id = tenant_id\<rparr>"

definition entraid_request :: "entraid_adapter \<Rightarrow> string \<Rightarrow> pydict \<Rightarrow> string list \<Rightarrow> provider_request" where
  "entraid_request a sub act scopes =
     \<lparr>pr_url = va_token_url a, pr_encoding = FormBody,
      pr_payload = [(''grant_type'', JStr ''client_credentials''), (''scope'', JStr (py_join '' '' scopes)),
                    (''client_id'', JStr (va_client_id a)), (''client_secret'', JStr (va_client_secret a)),
                    (''sub'', JStr sub), (''act'', JDict act)]\<rparr>"

definition entraid_request_token ::
  "entraid_adapter \<Rightarrow> provider \<Rightarrow> string \<Rightarrow> pydict \<Rightarrow> string list \<Rightarrow> adapter_result" where
  "entraid_request_token a send sub act scopes =
     (let req = entraid_request a sub act scopes;
          r = post_token_request send req
      in (req, token_issued_log ''EntraID'' sub act r, r))"

text \<open>What \<open>requests\<close> puts in a form-encoded body (\<open>data=\<close>): a string value is
  one pair; a dict value is iterated, which yields its keys, one pair per key.\<close>

fun form_encode :: "json_obj \<Rightarrow> (string \<times> string) list" where
  "form_encode [] = []"
| "form_encode ((k, JStr s) # rest) = (k, s) # form_encode rest"
| "form_encode ((k, JDict d) # rest) = map (\<lambda>kk. (k, kk)) (dict_keys d) @ form_encode rest"

subsection \<open>Lemmas\<close>

lemma missing_fields_Nil_iff: "missing_fields req config = [] \<longleftrightarrow> (\<forall>f \<in> set req. dict_has config f)"
  by (auto simp: missing_fields_def filter_empty_conv)

lemma post_token_request_cases:
  "post_token_request send req =
     (case send req of
        Inl e \<Rightarrow> Inl e
      | Inr r \<Rightarrow> if 400 \<le> resp_status r \<and> resp_status r < 600 then Inl (HTTPError (resp_status r))
                 else Inr (resp_json r))"
  by (cases "send req") (simp_all add: post_token_request_def raise_for_status_def)

lemma token_issued_log_Inr: "token_issued_log vendor sub act (Inr tok) =
    [vendor @ '' token issued for agent '' @ sub @ '' with human act '' @ py_dict_repr act]"
  by (simp add: token_issued_log_def)

lemma sublist_append_left_trans:
  assumes "sublist v r"
  shows "sublist v (p @ r)"
  using assms sublist_append_leftI [of r p] by (rule sublist_order.order.trans)

lemma token_issued_log_plain_value:
  assumes "(k, v) \<in> set act" "py_plain v"
  shows "\<exists>l \<in> set (token_issued_log vendor sub act (Inr tok)). sublist v l"
proof -
  have "sublist v (py_dict_repr act)" using assms by (rule py_dict_repr_plain_value)
  then have "sublist v ((vendor @ '' token issued for agent '' @ sub @ '' with human act '') @ py_dict_repr act)"
    by (rule sublist_append_left_trans)
  then show ?thesis by (simp add: token_issued_log_Inr)
qed

subsection \<open>Properties of the adapters\<close>

text \<open>C26 (functional): \<open>BaseAdapter.__init__\<close> succeeds exactly when the
  configuration has \<open>token_url\<close>, \<open>client_id\<close> and \<open>client_secret\<close> and the token
  URL starts with \<open>https://\<close>; the adapter then holds those values and the optional
  audience.\<close>

theorem base_adapter_init_ok:
  "base_adapter_init config = Inr a \<longleftrightarrow>
     (\<exists>u i sec. dict_get config ''token_url'' = Some u \<and> dict_get config ''client_id'' = Some i \<and>
        dict_get config ''client_secret'' = Some sec \<and> startswith u ''https://'' \<and>
        a = \<lparr>ba_config = config, ba_token_url = u, ba_client_id = i, ba_client_secret = sec,
             ba_audience = dict_get config ''audience''\<rparr>)"
proof (cases "missing_fields [''token_url'', ''client_id'', ''client_secret''] config = []")
  case True
  then obtain u i sec where g: "dict_get config ''token_url'' = Some u" "dict_get config ''client_id'' = Some i"
      "dict_get config ''client_secret'' = Some sec"
    by (auto simp: missing_fields_Nil_iff dict_has_iff_get)
  then show ?thesis using True by (auto simp: base_adapter_init_def)
next
  case False
  then have "base_adapter_init config \<noteq> Inr a" by (simp add: base_adapter_init_def)
  moreover from False have "\<not> (dict_has config ''token_url'' \<and> dict_has config ''client_id'' \<and>
                                  dict_has config ''client_secret'')"
    by (simp add: missing_fields_Nil_iff)
  ultimately show ?thesis by (auto simp: dict_has_iff_get)
qed



text \<open>C28 (safety, redaction): the context logged by
  \<open>_log_token_request_error\<close> never holds \<open>client_secret\<close>, \<open>token\<close> or \<open>act\<close>, and
  holds every other key of the caller's context with its value.\<close>

theorem log_error_context_redacts:
  "dict_get (log_error_context ctx) k =
     (if k \<in> {''client_secret'', ''token'', ''act''} then None else dict_get ctx k)"
  unfolding log_error_context_def dict_get_def
  by (induction ctx) auto

text \<open>A sanitized identifier is \<open>unknown\<close> for the empty string and otherwise
  a class prefix, an underscore and the first 12 characters of the digest.\<close>

lemma sanitize_identifier_shape:
  "(identifier = [] \<longrightarrow> sanitize_identifier h identifier = ''unknown'') \<and>
   (identifier \<noteq> [] \<longrightarrow> (\<exists>p \<in> {''user'', ''app'', ''id''}.
       sanitize_identifier h identifier = p @ ''_'' @ take 12 (h identifier))) \<and>
   length (sanitize_identifier h identifier) \<le> 17"
  by (auto simp: sanitize_identifier_def Let_def)

theorem sanitize_identifier_shape_witness:
  "sanitize_identifier (\<lambda>_. ''0123456789abcdef'') ''alice@example.com'' = ''user_0123456789ab'' \<and>
   length (sanitize_identifier (\<lambda>_. ''0123456789abcdef'') ''alice@example.com'') \<le> 17"
  using sanitize_identifier_shape [of "''alice@example.com''" "\<lambda>_. ''0123456789abcdef''"]
  by (simp add: sanitize_identifier_def)

text \<open>C35 (safety, redaction): the start and success log records of
  \<open>BaseAdapter\<close> hold no PII and no secret: two requests whose act claims have the
  same field names and the same \<open>sub\<close> give the same start record whatever their
  \<open>email\<close> or \<open>name\<close>, and the success record does not depend on the access token nor
  on the act assertion beyond whether one is present.\<close>

theorem adapter_logs_redacted:
  assumes "dict_keys act = dict_keys act'" "dict_get act ''sub'' = dict_get act' ''sub''"
    and "(a = None) = (act_assertion r = None)"
  shows "log_token_request_start h ty agent_id act scopes = log_token_request_start h ty agent_id act' scopes \<and>
         log_token_request_success (r\<lparr>access_token := t, act_assertion := a\<rparr>) = log_token_request_success r"
proof -
  have "length act = length act'" using arg_cong [OF assms(1), of length] by (simp add: dict_keys_def)
  with assms show ?thesis
    by (simp add: log_token_request_start_def sanitize_act_def log_token_request_success_def)
qed

theorem adapter_logs_redacted_witness:
  "log_token_request_start (\<lambda>s. s) ''Auth0Adapter'' ''agent-1''
      [(''sub'', ''u1''), (''email'', ''alice@example.com'')] [''read''] =
   log_token_request_start (\<lambda>s. s) ''Auth0Adapter'' ''agent-1''
      [(''sub'', ''u1''), (''email'', ''bob@example.com'')] [''read'']"
  using adapter_logs_redacted [of "[(''sub'', ''u1''), (''email'', ''alice@example.com'')]"
      "[(''sub'', ''u1''), (''email'', ''bob@example.com'')]" None
      "\<lparr>access_token = ''tok'', token_type = ''Bearer'', expires_in = 300, scope = ''read'', act_assertion = None\<rparr>"
      "\<lambda>s. s" "''Auth0Adapter''" "''agent-1''" "[''read'']" "''t''"]
  by (simp add: dict_keys_def)

text \<open>C30 (functional, error): each vendor adapter posts exactly one request, to its
  token URL, carrying the agent \<open>sub\<close>, the whole \<open>act\<close> and the client secret; a
  response status in 400..599 is raised as \<open>HTTPError\<close> with that status, a network
  exception propagates unchanged, and any other response returns its JSON.\<close>

theorem vendor_request_token_result:
  "\<forall>(res, url, secret) \<in> {(auth0_request_token a send sub act scopes, va_token_url a, va_client_secret a),
                            (okta_request_token a send sub act scopes, va_token_url a, va_client_secret a),
                            (entraid_request_token b send sub act scopes, va_token_url b, va_client_secret b)}.
     pr_url (fst res) = url \<and> (''sub'', JStr sub) \<in> set (pr_payload (fst res)) \<and>
     (''act'', JDict act) \<in> set (pr_payload (fst res)) \<and> (''client_secret'', JStr secret) \<in> set (pr_payload (fst res)) \<and>
     snd (snd res) =
       (case send (fst res) of
          Inl e \<Rightarrow> Inl e
        | Inr r \<Rightarrow> if 400 \<le> resp_status r \<and> resp_status r < 600 then Inl (HTTPError (resp_status r))
                   else Inr (resp_json r))"
  by (simp add: auth0_request_token_def okta_request_token_def entraid_request_token_def
      auth0_request_def okta_request_def entraid_request_def Let_def post_token_request_cases)

theorem vendor_request_token_result_witness:
  "snd (snd (okta_request_token (okta_adapter_init ''https://idp.example.com/token'' ''agent-1'' ''s3cret'')
       (\<lambda>_. Inr \<lparr>resp_status = 503, resp_json = []\<rparr>) ''agent-1'' [(''sub'', ''alice'')] [''read''])) = Inl (HTTPError 503)"
  using vendor_request_token_result [of "okta_adapter_init ''https://idp.example.com/token'' ''agent-1'' ''s3cret''"
      "\<lambda>_. Inr \<lparr>resp_status = 503, resp_json = []\<rparr>" "''agent-1''" "[(''sub'', ''alice'')]" "[''read'']"
      "entraid_adapter_init ''https://idp.example.com/token'' ''agent-1'' ''s3cret'' ''t1''"]
  by simp

text \<open>C31 (code bug): \<open>EntraIDAdapter.request_token\<close> posts its payload form-encoded
  (\<open>data=\<close>); the requests library encodes the \<open>act\<close> dict as one \<open>act\<close> pair per
  key, so the provider receives the act's field names and none of its values.\<close>

theorem entraid_form_drops_act_values:
  "pr_encoding (entraid_request b sub act scopes) = FormBody \<and>
   [p \<leftarrow> form_encode (pr_payload (entraid_request b sub act scopes)). fst p = ''act''] =
     map (\<lambda>k. (''act'', k)) (dict_keys act)"
  by (simp add: entraid_request_def filter_map o_def)

text \<open>C32 (spec divergence): the vendor adapters of agents/python never check the
  token URL's scheme: a token URL that is not \<open>https://\<close>, which
  \<open>BaseAdapter.__init__\<close> rejects, is used by the Okta and EntraID adapters, which send
  the client secret to it.\<close>

theorem vendor_adapters_accept_http:
  assumes "\<not> startswith u ''https://''"
  shows "base_adapter_init [(''token_url'', u), (''client_id'', i), (''client_secret'', sec)] =
           Inl (ValueError ''Token URL must use HTTPS (https://)'') \<and>
         pr_url (okta_request (okta_adapter_init u i sec) sub act scopes) = u \<and>
         (''client_secret'', JStr sec) \<in> set (pr_payload (okta_request (okta_adapter_init u i sec) sub act scopes)) \<and>
         pr_url (entraid_request (entraid_adapter_init u i sec t) sub act scopes) = u \<and>
         (''client_secret'', JStr sec) \<in> set (pr_payload (entraid_request (entraid_adapter_init u i sec t) sub act scopes))"
  using assms
  by (simp add: base_adapter_init_def missing_fields_def okta_request_def okta_adapter_init_def
      entraid_request_def entraid_adapter_init_def)

theorem vendor_adapters_accept_http_witness:
  "pr_url (okta_request (okta_adapter_init ''http://idp.example.com/token'' ''agent-1'' ''s3cret'') ''agent-1''
      [(''sub'', ''alice'')] [''read'']) = ''http://idp.example.com/token'' \<and>
   base_adapter_init [(''token_url'', ''http://idp.example.com/token''), (''client_id'', ''agent-1''),
      (''client_secret'', ''s3cret'')] = Inl (ValueError ''Token URL must use HTTPS (https://)'')"
  using vendor_adapters_accept_http [of "''http://idp.example.com/token''" "''agent-1''" "''s3cret''"
      "''agent-1''" "[(''sub'', ''alice'')]" "[''read'']" "''t1''"]
  by simp

text \<open>C33 (spec divergence): on success every vendor adapter writes the human's act
  to its info log: each value of the act (for example the email) appears verbatim in
  the logged line, while the spec requires that raw claim PII never reach the logs.\<close>

theorem vendor_adapters_log_act_values:
  assumes "(k, v) \<in> set act" "py_plain v"
  shows "\<forall>res \<in> {auth0_request_token a send sub act scopes, okta_request_token a send sub act scopes,
                  entraid_request_token b send sub act scopes}.
           (\<exists>tok. snd (snd res) = Inr tok) \<longrightarrow> (\<exists>l \<in> set (fst (snd res)). sublist v l)"
  using token_issued_log_plain_value [OF assms]
  by (auto simp: auth0_request_token_def okta_request_token_def entraid_request_token_def Let_def)

theorem vendor_adapters_log_act_values_witness:
  "\<exists>l \<in> set (fst (snd (auth0_request_token (auth0_adapter_init ''tenant.auth0.com'' ''agent-1'' ''s3cret'')
       (\<lambda>_. Inr \<lparr>resp_status = 200, resp_json = [(''access_token'', ''tok'')]\<rparr>) ''agent-1''
       [(''sub'', ''alice@example.com'')] [''read'']))). sublist ''alice@example.com'' l"
proof -
  have p: "(''sub'', ''alice@example.com'') \<in> set [(''sub'', ''alice@example.com'')]" "py_plain ''alice@example.com''"
    by (simp_all add: py_plain_def)
  show ?thesis
    using vendor_adapters_log_act_values [OF p, of "auth0_adapter_init ''tenant.auth0.com'' ''agent-1'' ''s3cret''"
        "\<lambda>_. Inr \<lparr>resp_status = 200, resp_json = [(''access_token'', ''tok'')]\<rparr>" "''agent-1''" "[''read'']"
        "entraid_adapter_init ''https://idp.example.com/token'' ''agent-1'' ''s3cret'' ''t1''"]
    by (simp add: auth0_request_token_def Let_def post_token_request_cases)
qed

end
