(* ===== verification/Config.thy ===== *)
theory Config
  imports Prelude
begin

text \<open>
  The configuration loader (src/agbac-min/code/python/agbac_config.py). Its inputs
  become arguments: the process environment is a map \<open>environ\<close> from variable names
  to values (\<open>os.getenv\<close>), and the file system is a map \<open>filesystem\<close> from paths
  to what \<open>os.path.exists\<close>, \<open>os.path.isfile\<close> and \<open>os.access(R_OK)\<close> report.
  A loaded configuration is a \<open>pydict\<close>; Keycloak's \<open>'audience': None\<close> entry is
  represented by the absence of the key, which every reader of the dict in the
  code (\<open>config.get('audience')\<close>, \<open>'audience' in config and config['audience'] is
  not None\<close>) treats the same way. Warnings go to the logger only and are not
  modelled. \<open>urlsplit\<close> is the part of \<open>urllib.parse.urlsplit\<close> the loader reads
  (scheme and network location, with the bracket-balance check that raises
  \<open>ValueError\<close>), modelled from the library's documented behaviour.
\<close>

type_synonym environ = "string \<Rightarrow> string option"

record file_info =
  fi_is_file :: bool
  fi_readable :: bool

type_synonym filesystem = "string \<Rightarrow> file_info option"

definition getenv :: "environ \<Rightarrow> string \<Rightarrow> string \<Rightarrow> string" where
  "getenv env k d = (case env k of Some v \<Rightarrow> v | None \<Rightarrow> d)"

definition https_example :: string where
  "https_example = ''Example: https://example.com/path''"

subsection \<open>URL and file validators\<close>

text \<open>\<open>_validate_https_url\<close>.\<close>

definition validate_https_url :: "string \<Rightarrow> string \<Rightarrow> py_exc + unit" where
  "validate_https_url url field_name =
     (if url = [] then Inl (ConfigurationError (field_name @ '' cannot be empty''))
      else if \<not> startswith url ''https://'' then
        (if sublist ''://'' url
         then Inl (ConfigurationError (field_name @ '' must use HTTPS for security. Got scheme: '' @
                     str_before ''://'' url @ ''. Change to https://''))
         else Inl (ConfigurationError (field_name @ '' must use HTTPS and include full URL with scheme. Got: '' @
                     take 50 url @ ''... '' @ https_example)))
      else Inr ())"

text \<open>\<open>urllib.parse.urlsplit\<close>, scheme and netloc: leading C0 controls and spaces
  are stripped and tab, CR, LF removed; a scheme is the text before the first colon
  when it starts with an ASCII letter and has only scheme characters; a netloc
  follows \<open>//\<close> up to the first \<open>/\<close>, \<open>?\<close> or \<open>#\<close>.\<close>

definition url_scheme_char :: "char \<Rightarrow> bool" where
  "url_scheme_char c \<longleftrightarrow> c \<in> set (''abcdefghijklmnopqrstuvwxyzABCDEFGHIJKLMNOPQRSTUVWXYZ0123456789+-.'')"

definition ascii_alpha :: "char \<Rightarrow> bool" where
  "ascii_alpha c \<longleftrightarrow> c \<in> set (''abcdefghijklmnopqrstuvwxyzABCDEFGHIJKLMNOPQRSTUVWXYZ'')"

definition urlsplit :: "string \<Rightarrow> py_exc + (string \<times> string)" where
  "urlsplit url0 =
     (let url = filter (\<lambda>c. c \<notin> {CHR 0x09, CHR 0x0D, CHR 0x0A})
                  (dropWhile (\<lambda>c. (of_char c :: nat) \<le> 32) url0);
          pre = takeWhile (\<lambda>c. c \<noteq> CHR '':'') url;
          post = dropWhile (\<lambda>c. c \<noteq> CHR '':'') url;
          (scheme, rest) = (if post \<noteq> [] \<and> pre \<noteq> [] \<and> ascii_alpha (hd pre) \<and> list_all url_scheme_char pre
                            then (py_lower pre, tl post) else ([], url))
      in if take 2 rest = ''//'' then
           (let netloc = takeWhile (\<lambda>c. c \<notin> set ''/?#'') (drop 2 rest)
            in if (CHR ''['' \<in> set netloc) \<noteq> (CHR '']'' \<in> set netloc)
               then Inl (ValueError ''Invalid IPv6 URL'') else Inr (scheme, netloc))
         else Inr (scheme, []))"

text \<open>\<open>_validate_url_format\<close>: the checks raise \<open>ConfigurationError\<close> inside a
  \<open>try\<close> whose \<open>except Exception\<close> catches every exception, these included, and
  raises a new \<open>ConfigurationError\<close> naming the caught exception's class.\<close>

definition url_format_checks :: "string \<Rightarrow> string \<Rightarrow> py_exc + unit" where
  "url_format_checks url field_name =
     exc_bind (urlsplit url) (\<lambda>(scheme, netloc).
       if scheme = [] then Inl (ConfigurationError (field_name @ '' missing URL scheme. Got: '' @
                                  take 50 url @ ''... '' @ https_example))
       else if netloc = [] then Inl (ConfigurationError (field_name @ '' missing hostname. Got: '' @
                                  take 50 url @ ''... '' @ https_example))
       else Inr ())"

definition validate_url_format :: "string \<Rightarrow> string \<Rightarrow> py_exc + unit" where
  "validate_url_format url field_name =
     (case url_format_checks url field_name of
        Inl e \<Rightarrow> Inl (ConfigurationError (field_name @ '' has invalid URL format: '' @ exc_class_name e))
      | Inr u \<Rightarrow> Inr u)"

text \<open>\<open>_validate_file_exists\<close> (the permission warning is not modelled).\<close>

definition validate_file_exists :: "filesystem \<Rightarrow> string \<Rightarrow> string \<Rightarrow> py_exc + unit" where
  "validate_file_exists fs file_path field_name =
     (if file_path = [] then Inl (ConfigurationError (field_name @ '' cannot be empty''))
      else case fs file_path of
        None \<Rightarrow> Inl (ConfigurationError (field_name @ '' file does not exist: '' @ file_path))
      | Some fi \<Rightarrow>
          if \<not> fi_is_file fi then Inl (ConfigurationError (field_name @ '' path is not a file: '' @ file_path))
          else if \<not> fi_readable fi
            then Inl (ConfigurationError (field_name @ '' file is not readable: '' @ file_path @ ''. Check file permissions.''))
          else Inr ())"

subsection \<open>Vendor-specific loaders\<close>

definition too_short :: "string \<Rightarrow> string \<Rightarrow> py_exc" where
  "too_short var v = ConfigurationError (var @ '' appears invalid (too short: '' @ show_nat (length v) @ '' characters)'')"

definition get_keycloak_config :: "environ \<Rightarrow> string \<Rightarrow> string \<Rightarrow> py_exc + pydict" where
  "get_keycloak_config env client_id client_secret =
     (let token_url = py_strip (getenv env ''KEYCLOAK_TOKEN_URL'' [])
      in if token_url = [] then Inl (ConfigurationError
           ''KEYCLOAK_TOKEN_URL environment variable is required for Keycloak. Example: export KEYCLOAK_TOKEN_URL=https://keycloak.example.com/realms/prod/protocol/openid-connect/token'')
         else Inr [(''token_url'', token_url), (''client_id'', client_id), (''client_secret'', client_secret)])"

text \<open>\<open>_get_auth0_config\<close> and \<open>_get_okta_config\<close> differ only in the variable
  name, the vendor name and the example URL of their first message.\<close>

definition get_audience_vendor_config ::
  "string \<Rightarrow> string \<Rightarrow> string \<Rightarrow> environ \<Rightarrow> string \<Rightarrow> string \<Rightarrow> py_exc + pydict" where
  "get_audience_vendor_config url_var vendor_name example env client_id client_secret =
     (let token_url = py_strip (getenv env url_var []);
          audience = py_strip (getenv env ''API_AUDIENCE'' [])
      in if token_url = [] then Inl (ConfigurationError
           (url_var @ '' environment variable is required for '' @ vendor_name @ ''. Example: export '' @ url_var @ ''='' @ example))
         else if audience = [] then Inl (ConfigurationError
           (''API_AUDIENCE environment variable is required for '' @ vendor_name @ ''. Example: export API_AUDIENCE=https://api.example.com''))
         else if length audience < 3 then Inl (too_short ''API_AUDIENCE'' audience)
         else Inr [(''token_url'', token_url), (''client_id'', client_id), (''client_secret'', client_secret),
                   (''audience'', audience)])"

definition get_auth0_config :: "environ \<Rightarrow> string \<Rightarrow> string \<Rightarrow> py_exc + pydict" where
  "get_auth0_config = get_audience_vendor_config ''AUTH0_TOKEN_URL'' ''Auth0'' ''https://tenant.auth0.com/oauth/token''"

definition get_okta_config :: "environ \<Rightarrow> string \<Rightarrow> string \<Rightarrow> py_exc + pydict" where
  "get_okta_config = get_audience_vendor_config ''OKTA_TOKEN_URL'' ''Okta'' ''https://dev-123.okta.com/oauth2/aus123/v1/token''"

text \<open>\<open>_get_entraid_config\<close>: five required variables, then the key file, then
  the two length checks.\<close>

definition get_entraid_config :: "environ \<Rightarrow> filesystem \<Rightarrow> string \<Rightarrow> string \<Rightarrow> py_exc + pydict" where
  "get_entraid_config env fs client_id client_secret =
     (let token_url = py_strip (getenv env ''ENTRAID_TOKEN_URL'' []);
          scope = py_strip (getenv env ''API_SCOPE'' []);
          app_private_key_path = py_strip (getenv env ''APP_PRIVATE_KEY_PATH'' []);
          app_id = py_strip (getenv env ''APP_ID'' []);
          act_audience = py_strip (getenv env ''API_AUDIENCE'' [])
      in if token_url = [] then Inl (ConfigurationError
           ''ENTRAID_TOKEN_URL environment variable is required for EntraID. Example: export ENTRAID_TOKEN_URL=https://login.microsoftonline.com/tenant-id/oauth2/v2.0/token'')
         else if scope = [] then Inl (ConfigurationError
           ''API_SCOPE environment variable is required for EntraID. Example: export API_SCOPE=https://api.example.com/.default'')
         else if app_private_key_path = [] then Inl (ConfigurationError
           ''APP_PRIVATE_KEY_PATH environment variable is required for EntraID. Example: export APP_PRIVATE_KEY_PATH=/keys/app_private_key.pem'')
         else if app_id = [] then Inl (ConfigurationError
           ''APP_ID environment variable is required for EntraID. Example: export APP_ID=https://app.example.com'')
         else if act_audience = [] then Inl (ConfigurationError
           ''API_AUDIENCE environment variable is required for EntraID. Example: export API_AUDIENCE=https://api.example.com'')
         else exc_bind (validate_file_exists fs app_private_key_path ''APP_PRIVATE_KEY_PATH'') (\<lambda>_.
           if length app_id < 3 then Inl (too_short ''APP_ID'' app_id)
           else if length act_audience < 3 then Inl (too_short ''API_AUDIENCE'' act_audience)
           else Inr [(''token_url'', token_url), (''client_id'', client_id), (''client_secret'', client_secret),
                     (''scope'', scope), (''app_private_key_path'', app_private_key_path), (''app_id'', app_id),
                     (''act_audience'', act_audience)]))"

subsection \<open>\<open>get_config\<close> and \<open>get_vendor\<close>\<close>

definition valid_vendors :: "string list" where
  "valid_vendors = [''keycloak'', ''auth0'', ''okta'', ''entraid'']"

text \<open>The vendor-independent part of \<open>get_config\<close>: vendor, client id and
  secret, in the order the code checks them.\<close>

definition common_config :: "environ \<Rightarrow> string \<Rightarrow> py_exc + (string \<times> string)" where
  "common_config env vendor =
     (if vendor = [] then Inl (ConfigurationError
        ''Vendor cannot be empty. Set AGBAC_VENDOR environment variable or pass vendor parameter. Valid values: keycloak, auth0, okta, entraid'')
      else if vendor \<notin> set valid_vendors then Inl (ConfigurationError
        (''Invalid vendor: '' @ [CHR 0x27] @ vendor @ [CHR 0x27] @ ''. Must be one of: '' @ py_join '', '' valid_vendors))
      else
        (let client_id = py_strip (getenv env ''AGENT_CLIENT_ID'' []);
             client_secret = py_strip (getenv env ''AGENT_CLIENT_SECRET'' [])
         in if client_id = [] then Inl (ConfigurationError
              ''AGENT_CLIENT_ID environment variable is required and cannot be empty. Example: export AGENT_CLIENT_ID=finance-agent'')
            else if client_secret = [] then Inl (ConfigurationError
              ''AGENT_CLIENT_SECRET environment variable is required and cannot be empty. Example: export AGENT_CLIENT_SECRET=your-secret-here'')
            else if length client_id < 3 then Inl (ConfigurationError
              (''AGENT_CLIENT_ID appears invalid (too short: '' @ show_nat (length client_id) @
               '' characters). Client IDs should be at least 3 characters long.''))
            else Inr (client_id, client_secret)))"

definition vendor_config :: "environ \<Rightarrow> filesystem \<Rightarrow> string \<Rightarrow> string \<Rightarrow> string \<Rightarrow> py_exc + pydict" where
  "vendor_config env fs vendor client_id client_secret =
     (if vendor = ''keycloak'' then get_keycloak_config env client_id client_secret
      else if vendor = ''auth0'' then get_auth0_config env client_id client_secret
      else if vendor = ''okta'' then get_okta_config env client_id client_secret
      else if vendor = ''entraid'' then get_entraid_config env fs client_id client_secret
      else Inl (ConfigurationError (''Unsupported vendor: '' @ vendor)))"

definition normalize_vendor :: "environ \<Rightarrow> string option \<Rightarrow> string" where
  "normalize_vendor env vendor =
     (case vendor of
        None \<Rightarrow> py_strip (py_lower (getenv env ''AGBAC_VENDOR'' ''keycloak''))
      | Some v \<Rightarrow> py_strip (py_lower v))"

definition get_config :: "environ \<Rightarrow> filesystem \<Rightarrow> string option \<Rightarrow> py_exc + pydict" where
  "get_config env fs vendor0 =
     (let vendor = normalize_vendor env vendor0
      in exc_bind (common_config env vendor) (\<lambda>(client_id, client_secret).
         exc_bind (vendor_config env fs vendor client_id client_secret) (\<lambda>config.
         exc_bind (validate_https_url (the (dict_get config ''token_url'')) ''token_url'') (\<lambda>_.
         exc_bind (validate_url_format (the (dict_get config ''token_url'')) ''token_url'') (\<lambda>_.
         Inr config)))))"

definition get_vendor :: "environ \<Rightarrow> string" where
  "get_vendor env = py_strip (py_lower (getenv env ''AGBAC_VENDOR'' ''keycloak''))"

text \<open>A Keycloak environment, as in the docstring of \<open>get_config\<close>, with a
  token URL that needs stripping.\<close>

definition keycloak_example_env :: environ where
  "keycloak_example_env = map_of [(''AGENT_CLIENT_ID'', ''finance-agent''), (''AGENT_CLIENT_SECRET'', ''secret123''),
     (''KEYCLOAK_TOKEN_URL'', '' https://kc.example.com/token'')]"

definition keycloak_example_config :: pydict where
  "keycloak_example_config =
     [(''token_url'', ''https://kc.example.com/token''), (''client_id'', ''finance-agent''), (''client_secret'', ''secret123'')]"

subsection \<open>Lemmas\<close>

lemma validate_https_url_Inr_iff [return_iff]:
  "validate_https_url url f = Inr u \<longleftrightarrow> url \<noteq> [] \<and> startswith url ''https://''"
  by (simp add: validate_https_url_def)

lemma common_config_Inr:
  assumes "common_config env vendor = Inr (client_id, client_secret)"
  shows "vendor \<in> set valid_vendors \<and> client_id \<noteq> [] \<and> client_secret \<noteq> [] \<and>
         client_id = py_strip (getenv env ''AGENT_CLIENT_ID'' []) \<and>
         client_secret = py_strip (getenv env ''AGENT_CLIENT_SECRET'' [])"
  using assms by (auto simp: common_config_def Let_def split: if_splits)

lemma get_audience_vendor_config_Inr:
  assumes "get_audience_vendor_config uv vn ex env i s = Inr cfg"
  shows "\<exists>u a. cfg = [(''token_url'', u), (''client_id'', i), (''client_secret'', s), (''audience'', a)] \<and> u \<noteq> [] \<and> 3 \<le> length a"
  using assms by (auto simp: get_audience_vendor_config_def Let_def split: if_splits)

lemma validate_file_exists_Inr_iff [return_iff]:
  "validate_file_exists fs p f = Inr u \<longleftrightarrow> p \<noteq> [] \<and> (\<exists>fi. fs p = Some fi \<and> fi_is_file fi \<and> fi_readable fi)"
  by (auto simp: validate_file_exists_def split: option.splits)

lemma get_entraid_config_Inr:
  assumes "get_entraid_config env fs i s = Inr cfg"
  shows "\<exists>u sc p ai aa fi. cfg = [(''token_url'', u), (''client_id'', i), (''client_secret'', s), (''scope'', sc),
            (''app_private_key_path'', p), (''app_id'', ai), (''act_audience'', aa)] \<and>
         u \<noteq> [] \<and> sc \<noteq> [] \<and> 3 \<le> length ai \<and> 3 \<le> length aa \<and> fs p = Some fi \<and> fi_is_file fi \<and> fi_readable fi \<and> p \<noteq> []"
  using assms by (auto simp: get_entraid_config_def Let_def return_iff split: if_splits)

lemma get_config_Inr:
  assumes "get_config env fs vendor0 = Inr cfg"
  obtains client_id client_secret u where
    "common_config env (normalize_vendor env vendor0) = Inr (client_id, client_secret)"
    "vendor_config env fs (normalize_vendor env vendor0) client_id client_secret = Inr cfg"
    "dict_get cfg ''token_url'' = Some u" "startswith u ''https://''"
    "validate_url_format u ''token_url'' = Inr ()"
proof -
  from assms obtain client_id client_secret where
    c: "common_config env (normalize_vendor env vendor0) = Inr (client_id, client_secret)" and
    r: "exc_bind (vendor_config env fs (normalize_vendor env vendor0) client_id client_secret) (\<lambda>config.
         exc_bind (validate_https_url (the (dict_get config ''token_url'')) ''token_url'') (\<lambda>_.
         exc_bind (validate_url_format (the (dict_get config ''token_url'')) ''token_url'') (\<lambda>_.
         Inr config))) = Inr cfg"
    by (auto simp: get_config_def Let_def exc_bind_Inr_iff)
  from r have v: "vendor_config env fs (normalize_vendor env vendor0) client_id client_secret = Inr cfg"
    and h: "startswith (the (dict_get cfg ''token_url'')) ''https://''"
    and f: "validate_url_format (the (dict_get cfg ''token_url'')) ''token_url'' = Inr ()"
    by (auto simp: return_iff)
  have "dict_has cfg ''token_url''"
    using c v by (auto simp: vendor_config_def get_keycloak_config_def get_auth0_config_def get_okta_config_def
        Let_def dest!: common_config_Inr get_audience_vendor_config_Inr get_entraid_config_Inr split: if_splits)
  then obtain u where "dict_get cfg ''token_url'' = Some u" by (auto simp: dict_has_iff_get)
  with c v h f show ?thesis by (intro that) auto
qed

lemma vendor_config_Inr:
  assumes "vendor_config env fs vendor i s = Inr cfg"
  shows "(vendor = ''keycloak'' \<and> (\<exists>u. cfg = [(''token_url'', u), (''client_id'', i), (''client_secret'', s)] \<and> u \<noteq> [])) \<or>
         (vendor \<in> {''auth0'', ''okta''} \<and> (\<exists>u a. cfg = [(''token_url'', u), (''client_id'', i), (''client_secret'', s),
             (''audience'', a)] \<and> u \<noteq> [] \<and> 3 \<le> length a)) \<or>
         (vendor = ''entraid'' \<and> (\<exists>u sc p ai aa fi. cfg = [(''token_url'', u), (''client_id'', i), (''client_secret'', s),
             (''scope'', sc), (''app_private_key_path'', p), (''app_id'', ai), (''act_audience'', aa)] \<and>
           u \<noteq> [] \<and> sc \<noteq> [] \<and> 3 \<le> length ai \<and> 3 \<le> length aa \<and> p \<noteq> [] \<and>
           fs p = Some fi \<and> fi_is_file fi \<and> fi_readable fi))"
  using assms
  by (auto simp: vendor_config_def get_keycloak_config_def get_auth0_config_def get_okta_config_def Let_def
      dest!: get_audience_vendor_config_Inr get_entraid_config_Inr split: if_splits)

lemma url_format_checks_Inl:
  "url_format_checks url f = Inl e \<Longrightarrow> exc_class_name e \<in> {''ConfigurationError'', ''ValueError''}"
  by (auto simp: url_format_checks_def urlsplit_def Let_def exc_bind_splits split: if_splits prod.splits)

lemma get_config_keycloak_example:
  "get_config keycloak_example_env (\<lambda>_. None) None = Inr keycloak_example_config"
  by (simp add: keycloak_example_env_def keycloak_example_config_def get_config_def normalize_vendor_def getenv_def
      py_strip_def py_is_space_def py_lower_def py_lower_char_def common_config_def valid_vendors_def vendor_config_def
      get_keycloak_config_def validate_https_url_def validate_url_format_def url_format_checks_def urlsplit_def
      Let_def ascii_alpha_def url_scheme_char_def)

subsection \<open>Properties of the loader\<close>



text \<open>C37 (code bug): every error \<open>_validate_url_format\<close> raises is the wrapper
  \<open>has invalid URL format: ConfigurationError\<close> or \<open>... ValueError\<close>: its own
  \<open>missing URL scheme\<close> and \<open>missing hostname\<close> messages are caught by its
  \<open>except Exception\<close> and never reach the caller.\<close>

theorem validate_url_format_masks_errors:
  assumes "validate_url_format url f = Inl e"
  shows "e = ConfigurationError (f @ '' has invalid URL format: ConfigurationError'') \<or>
         e = ConfigurationError (f @ '' has invalid URL format: ValueError'')"
  using assms url_format_checks_Inl [of url f]
  by (auto simp: validate_url_format_def split: sum.splits)

theorem validate_url_format_masks_errors_witness:
  "validate_url_format ''https:///token'' ''token_url'' =
     Inl (ConfigurationError ''token_url has invalid URL format: ConfigurationError'')"
proof -
  have h: "validate_url_format ''https:///token'' ''token_url'' =
      Inl (ConfigurationError ''token_url has invalid URL format: ConfigurationError'')"
    by (simp add: validate_url_format_def url_format_checks_def urlsplit_def Let_def ascii_alpha_def
        url_scheme_char_def py_lower_def py_lower_char_def)
  from validate_url_format_masks_errors [OF h] h show ?thesis by simp
qed

text \<open>C38 (equivalence): \<open>get_config\<close> treats its vendor argument case-insensitively
  and ignores surrounding whitespace: padding it with whitespace and changing its
  case gives the same result as the lower-case name.\<close>

theorem get_config_vendor_normalised:
  assumes "list_all py_is_space ws1" "list_all py_is_space ws2"
  shows "get_config env fs (Some (ws1 @ v @ ws2)) = get_config env fs (Some (py_lower v))"
  using assms by (simp add: get_config_def normalize_vendor_def py_lower_pad py_strip_pad)

theorem get_config_vendor_normalised_witness:
  "get_config keycloak_example_env (\<lambda>_. None) (Some '' Auth0 '') =
   get_config keycloak_example_env (\<lambda>_. None) (Some ''auth0'')"
proof -
  have s: "list_all py_is_space '' ''" by (simp add: py_is_space_def)
  have "py_lower ''Auth0'' = ''auth0''" by code_simp
  with get_config_vendor_normalised [OF s s, of keycloak_example_env "\<lambda>_. None" "''Auth0''"] show ?thesis by simp
qed
end
