(* ===== verification/Legacy.thy ===== *)
theory Legacy
  imports Adapters Jwt
begin

text \<open>
  The older agent-side code of src/agbac-min/agents/python: the sender
  (sender/hybrid_sender.py), the in-session and out-of-session token requesters and
  the out-of-session API caller. The requesters call methods with keyword and
  positional arguments that do not match the callee's parameters, so the model
  includes Python's argument binding (modelled from the language reference and
  CPython's messages): a call binds its positional arguments to the leading
  parameters, then its keyword arguments by name, then checks arity and fills
  defaults. Argument values are \<open>pyval\<close>s. A \<open>from m import n\<close> of a name the
  module does not define raises \<open>ImportError\<close>.
\<close>

subsection \<open>Python values, imports and argument binding\<close>

datatype pyval = PStr string | PInt int | PDict pydict | PStrList "string list" | PJwt jwt | PNone

text \<open>A method signature; \<open>self\<close> is not listed, and CPython's arity messages,
  which count it, add one.\<close>

record py_sig =
  sig_qualname :: string
  sig_params :: "string list"
  sig_defaults :: "(string \<times> pyval) list"

definition py_quote :: "string \<Rightarrow> string" where
  "py_quote s = [CHR 0x27] @ s @ [CHR 0x27]"

definition import_from :: "string \<Rightarrow> string list \<Rightarrow> string list \<Rightarrow> py_exc + unit" where
  "import_from module exports names =
     (case filter (\<lambda>n. n \<notin> set exports) names of
        [] \<Rightarrow> Inr ()
      | n # _ \<Rightarrow> Inl (ImportError (''cannot import name '' @ py_quote n @ '' from '' @ py_quote module)))"

fun bind_keywords ::
  "string \<Rightarrow> string list \<Rightarrow> (string \<times> pyval) list \<Rightarrow> (string \<times> pyval) list \<Rightarrow> py_exc + (string \<times> pyval) list" where
  "bind_keywords q params bound [] = Inr bound"
| "bind_keywords q params bound ((k, v) # kws) =
     (if k \<notin> set params then Inl (TypeError (q @ ''() got an unexpected keyword argument '' @ py_quote k))
      else if k \<in> set (map fst bound) then Inl (TypeError (q @ ''() got multiple values for argument '' @ py_quote k))
      else bind_keywords q params (bound @ [(k, v)]) kws)"

text \<open>CPython's list of missing parameter names: \<open>'a'\<close>, \<open>'a' and 'b'\<close>,
  \<open>'a', 'b', and 'c'\<close>.\<close>

definition missing_names :: "string list \<Rightarrow> string" where
  "missing_names ms =
     (case ms of
        [a] \<Rightarrow> py_quote a
      | [a, b] \<Rightarrow> py_quote a @ '' and '' @ py_quote b
      | _ \<Rightarrow> py_join '', '' (map py_quote (butlast ms)) @ '', and '' @ py_quote (last ms))"

definition bind_call :: "py_sig \<Rightarrow> pyval list \<Rightarrow> (string \<times> pyval) list \<Rightarrow> py_exc + (string \<times> pyval) list" where
  "bind_call sig args kwargs =
     (let q = sig_qualname sig; params = sig_params sig
      in exc_bind (bind_keywords q params (zip params args) kwargs) (\<lambda>bound.
           if length params < length args
           then Inl (TypeError (q @ ''() takes '' @ show_nat (Suc (length params)) @ '' positional arguments but '' @
                                show_nat (Suc (length args)) @ '' were given''))
           else
             (let missing = filter (\<lambda>p. p \<notin> set (map fst bound) \<and> p \<notin> set (map fst (sig_defaults sig))) params
              in if missing \<noteq> []
                 then Inl (TypeError (q @ ''() missing '' @ show_nat (length missing) @ '' required positional argument'' @
                                      (if length missing = 1 then [] else ''s'') @ '': '' @ missing_names missing))
                 else Inr (map (\<lambda>p. (p, the (map_of (bound @ sig_defaults sig) p))) params))))"

text \<open>An adapter object as the requesters see it: its class name, the signature
  and behaviour of \<open>request_token\<close>, and \<open>call_api\<close> if the class has one.\<close>

type_synonym py_method = "py_sig \<times> ((string \<times> pyval) list \<Rightarrow> py_exc + pydict)"

record py_adapter =
  pa_class :: string
  pa_request_token :: py_method
  pa_call_api :: "py_method option"

definition call_method :: "py_method \<Rightarrow> pyval list \<Rightarrow> (string \<times> pyval) list \<Rightarrow> py_exc + pydict" where
  "call_method m args kwargs = exc_bind (bind_call (fst m) args kwargs) (snd m)"

subsection \<open>The vendor adapters as objects\<close>

definition request_token_sig :: "string \<Rightarrow> py_sig" where
  "request_token_sig cls = \<lparr>sig_qualname = cls @ ''.request_token'', sig_params = [''sub'', ''act'', ''scope''],
                            sig_defaults = []\<rparr>"

text \<open>The body of a vendor adapter's \<open>request_token\<close> on bound arguments of the
  annotated types; other argument types are outside the model and raise here.\<close>

definition vendor_method ::
  "(string \<Rightarrow> pydict \<Rightarrow> string list \<Rightarrow> py_exc + pydict) \<Rightarrow> (string \<times> pyval) list \<Rightarrow> py_exc + pydict" where
  "vendor_method f args =
     (case map snd args of
        [PStr sub, PDict act, PStrList scp] \<Rightarrow> f sub act scp
      | _ \<Rightarrow> Inl (TypeError ''argument types outside the model''))"

definition auth0_object :: "vendor_adapter \<Rightarrow> provider \<Rightarrow> py_adapter" where
  "auth0_object a send =
     \<lparr>pa_class = ''Auth0Adapter'',
      pa_request_token = (request_token_sig ''Auth0Adapter'',
                          vendor_method (\<lambda>sub act scp. snd (snd (auth0_request_token a send sub act scp)))),
      pa_call_api = None\<rparr>"

definition okta_object :: "vendor_adapter \<Rightarrow> provider \<Rightarrow> py_adapter" where
  "okta_object a send =
     \<lparr>pa_class = ''OktaAdapter'',
      pa_request_token = (request_token_sig ''OktaAdapter'',
                          vendor_method (\<lambda>sub act scp. snd (snd (okta_request_token a send sub act scp)))),
      pa_call_api = None\<rparr>"

definition entraid_object :: "entraid_adapter \<Rightarrow> provider \<Rightarrow> py_adapter" where
  "entraid_object a send =
     \<lparr>pa_class = ''EntraIDAdapter'',
      pa_request_token = (request_token_sig ''EntraIDAdapter'',
                          vendor_method (\<lambda>sub act scp. snd (snd (entraid_request_token a send sub act scp)))),
      pa_call_api = None\<rparr>"

text \<open>The globals of agents/python/adapters/base_adapter.py, which the
  requesters import from.\<close>

definition agents_base_adapter_exports :: "string list" where
  "agents_base_adapter_exports = [''logging'', ''List'', ''Dict'', ''logger'', ''BaseAdapter'']"

subsection \<open>The legacy sender (agents/python/sender/hybrid_sender.py)\<close>

record legacy_sender =
  ls_private_key_pem :: "string option"
  ls_tls_verify :: bool

definition legacy_sender_init :: "string option \<Rightarrow> bool \<Rightarrow> legacy_sender" where
  "legacy_sender_init pem tls_verify = \<lparr>ls_private_key_pem = pem, ls_tls_verify = tls_verify\<rparr>"

text \<open>\<open>prepare_in_session_act\<close> returns its argument and logs it with \<open>str\<close>.\<close>

definition legacy_prepare_in_session_act :: "pydict \<Rightarrow> string list \<times> pydict" where
  "legacy_prepare_in_session_act human_identity =
     ([''Preparing in-session '' @ py_quote ''act'' @ '' data: '' @ py_dict_repr human_identity], human_identity)"

text \<open>\<open>prepare_out_of_session_act\<close>: the payload has \<open>act\<close>, \<open>iat\<close>, \<open>exp\<close> and
  \<open>aud\<close> and no \<open>jti\<close>, \<open>iss\<close> or \<open>sub\<close>; \<open>jwt.encode\<close> loads the PEM, which the
  key store \<open>load\<close> maps to a key or to the class of the exception it raises, and
  that exception propagates.\<close>

definition legacy_payload :: "pydict \<Rightarrow> int \<Rightarrow> int \<Rightarrow> string \<Rightarrow> jwt_payload" where
  "legacy_payload human_identity now ttl_seconds agent_endpoint =
     \<lparr>pl_iss = None, pl_sub = None, pl_aud = Some agent_endpoint, pl_exp = Some (now + ttl_seconds),
      pl_iat = Some now, pl_jti = None, pl_act = Some human_identity\<rparr>"

definition legacy_prepare_out_of_session_act ::
  "(string \<Rightarrow> string + nat) \<Rightarrow> legacy_sender \<Rightarrow> pydict \<Rightarrow> string \<Rightarrow> int \<Rightarrow> int \<Rightarrow> py_exc + jwt" where
  "legacy_prepare_out_of_session_act load s human_identity agent_endpoint ttl_seconds now =
     (if \<not> opt_truthy (ls_private_key_pem s)
      then Inl (ValueError ''Private key required for out-of-session JWT signing.'')
      else case load (the (ls_private_key_pem s)) of
             Inl cls \<Rightarrow> Inl (RequestException cls)
           | Inr k \<Rightarrow> Inr (jwt_encode (legacy_payload human_identity now ttl_seconds agent_endpoint) (PrivKey k) RS256))"

definition legacy_prepare_oos_sig :: py_sig where
  "legacy_prepare_oos_sig =
     \<lparr>sig_qualname = ''HybridSender.prepare_out_of_session_act'',
      sig_params = [''human_identity'', ''agent_endpoint'', ''ttl_seconds''],
      sig_defaults = [(''ttl_seconds'', PInt 60)]\<rparr>"

text \<open>The method on bound arguments; \<open>int(time.time())\<close> is \<open>now\<close>.\<close>

definition legacy_prepare_oos_method ::
  "(string \<Rightarrow> string + nat) \<Rightarrow> legacy_sender \<Rightarrow> int \<Rightarrow> (string \<times> pyval) list \<Rightarrow> py_exc + jwt" where
  "legacy_prepare_oos_method load s now args =
     (case map snd args of
        [PDict h, PStr e, PInt ttl] \<Rightarrow> legacy_prepare_out_of_session_act load s h e ttl now
      | _ \<Rightarrow> Inl (TypeError ''argument types outside the model''))"

text \<open>\<open>send_out_of_session_act\<close>: one POST with the bearer header and the sender's
  TLS setting, \<open>raise_for_status\<close>, the JSON body; exceptions propagate.\<close>

record agent_post =
  ap_url :: string
  ap_headers :: pydict
  ap_verify :: bool

definition legacy_send_out_of_session_act ::
  "legacy_sender \<Rightarrow> (agent_post \<Rightarrow> py_exc + provider_response) \<Rightarrow> string \<Rightarrow> string \<Rightarrow> agent_post \<times> (py_exc + pydict)" where
  "legacy_send_out_of_session_act s post signed_jwt agent_endpoint =
     (let req = \<lparr>ap_url = agent_endpoint, ap_headers = [(''Authorization'', ''Bearer '' @ signed_jwt)],
                 ap_verify = ls_tls_verify s\<rparr>
      in (req, case post req of
                 Inl e \<Rightarrow> Inl e
               | Inr r \<Rightarrow> exc_bind (raise_for_status r) (\<lambda>_. Inr (resp_json r))))"

subsection \<open>The legacy requesters and API caller\<close>

text \<open>The \<open>from adapters.base_adapter import IAMAdapterBase\<close> at the top of the
  three modules.\<close>

definition legacy_module_import :: "py_exc + unit" where
  "legacy_module_import = import_from ''adapters.base_adapter'' agents_base_adapter_exports [''IAMAdapterBase'']"

text \<open>\<open>InSessionTokenRequester.request_token\<close>: the act from the sender, then
  \<open>adapter.request_token(agent_identity=..., act=...)\<close>; every exception is logged
  and re-raised.\<close>

definition legacy_in_session_request_token :: "py_adapter \<Rightarrow> string \<Rightarrow> pydict \<Rightarrow> py_exc + pydict" where
  "legacy_in_session_request_token adapter agent_identity human_identity =
     (let act_data = snd (legacy_prepare_in_session_act human_identity)
      in call_method (pa_request_token adapter) [] [(''agent_identity'', PStr agent_identity), (''act'', PDict act_data)])"

text \<open>\<open>OutOfSessionTokenRequester.request_token\<close>:
  \<open>sender.prepare_out_of_session_act(human_identity)\<close>, then the adapter call with
  the signed package.\<close>

definition legacy_out_of_session_request_token ::
  "py_adapter \<Rightarrow> (string \<Rightarrow> string + nat) \<Rightarrow> legacy_sender \<Rightarrow> int \<Rightarrow> string \<Rightarrow> pydict \<Rightarrow> py_exc + pydict" where
  "legacy_out_of_session_request_token adapter load s now agent_identity human_identity =
     exc_bind (bind_call legacy_prepare_oos_sig [PDict human_identity] []) (\<lambda>args.
     exc_bind (legacy_prepare_oos_method load s now args) (\<lambda>act_package.
       call_method (pa_request_token adapter) [] [(''agent_identity'', PStr agent_identity), (''act'', PJwt act_package)]))"

text \<open>\<open>OutOfSessionAPICaller.call_api\<close>: \<open>adapter.call_api(...)\<close>.\<close>

definition legacy_call_api :: "py_adapter \<Rightarrow> string \<Rightarrow> string \<Rightarrow> pyval \<Rightarrow> py_exc + pydict" where
  "legacy_call_api adapter token resource_url payload =
     (case pa_call_api adapter of
        None \<Rightarrow> Inl (AttributeError (py_quote (pa_class adapter) @ '' object has no attribute '' @ py_quote ''call_api''))
      | Some m \<Rightarrow> call_method m [] [(''access_token'', PStr token), (''resource_url'', PStr resource_url),
                                   (''payload'', payload)])"

subsection \<open>Properties of the legacy code\<close>

text \<open>C29 (code bug): the legacy requesters and API caller cannot work. Their
  modules fail to import, since agents/python/adapters/base_adapter.py defines no
  \<open>IAMAdapterBase\<close>; were the import fixed, the out-of-session requester calls
  \<open>prepare_out_of_session_act\<close> without its required \<open>agent_endpoint\<close>, the
  in-session requester calls each vendor adapter's \<open>request_token\<close> with a keyword
  \<open>agent_identity\<close> it does not take, and the API caller calls a \<open>call_api\<close> no
  adapter has: each raises, for every input.\<close>

theorem legacy_requesters_fail:
  "legacy_module_import =
     Inl (ImportError (''cannot import name '' @ py_quote ''IAMAdapterBase'' @ '' from '' @ py_quote ''adapters.base_adapter'')) \<and>
   legacy_out_of_session_request_token adapter load s now agent human =
     Inl (TypeError (''HybridSender.prepare_out_of_session_act() missing 1 required positional argument: '' @
                     py_quote ''agent_endpoint'')) \<and>
   (\<forall>obj \<in> {auth0_object a send, okta_object a send, entraid_object b send}.
      legacy_in_session_request_token obj agent human =
        Inl (TypeError (pa_class obj @ ''.request_token() got an unexpected keyword argument '' @ py_quote ''agent_identity'')) \<and>
      legacy_call_api obj tok url payload =
        Inl (AttributeError (py_quote (pa_class obj) @ '' object has no attribute '' @ py_quote ''call_api'')))"
  by (simp add: legacy_module_import_def import_from_def agents_base_adapter_exports_def
      legacy_out_of_session_request_token_def bind_call_def legacy_prepare_oos_sig_def missing_names_def
      legacy_in_session_request_token_def call_method_def legacy_call_api_def
      auth0_object_def okta_object_def entraid_object_def request_token_sig_def Let_def)

theorem legacy_requesters_fail_witness:
  "legacy_in_session_request_token (auth0_object (auth0_adapter_init ''tenant.auth0.com'' ''agent-1'' ''s3cret'')
       (\<lambda>_. Inr \<lparr>resp_status = 200, resp_json = []\<rparr>)) ''agent-1'' [(''sub'', ''alice'')] =
     Inl (TypeError (''Auth0Adapter.request_token() got an unexpected keyword argument '' @ py_quote ''agent_identity''))"
  using legacy_requesters_fail [of "auth0_object (auth0_adapter_init ''tenant.auth0.com'' ''agent-1'' ''s3cret'')
       (\<lambda>_. Inr \<lparr>resp_status = 200, resp_json = []\<rparr>)" "\<lambda>_. Inr 1" "legacy_sender_init (Some ''pem'') True" 0
       "''agent-1''" "[(''sub'', ''alice'')]" "auth0_adapter_init ''tenant.auth0.com'' ''agent-1'' ''s3cret''"
       "\<lambda>_. Inr \<lparr>resp_status = 200, resp_json = []\<rparr>"
       "entraid_adapter_init ''https://idp.example.com/token'' ''agent-1'' ''s3cret'' ''t1''"]
  by (simp add: auth0_object_def)

end
