(* ===== verification/VerifierSpec.thy ===== *)
theory VerifierSpec
  imports Verifier
begin

text \<open>
  The contract of the Out-of-Session Verifier and the Replay Guard (spec sections 4.3
  and 4.4), stated over what the contract can see of an assertion, and the
  refinement of that contract by \<open>receive_and_verify_act_jwt\<close>. The abstract state
  is the set of consumed nonces; the abstract result is the act claim or one of the
  five verification errors of the spec's taxonomy (section 7).
\<close>

datatype verification_error = SignatureInvalid | Expired | AudienceMismatch | ReplayDetected | MalformedClaim

text \<open>What the contract reads of an assertion: whether it is signed by the
  application's key under the pinned algorithm, and its claims.\<close>

record abs_assertion =
  aa_authentic :: bool
  aa_exp :: "int option"
  aa_aud :: "string option"
  aa_jti :: "string option"
  aa_act :: "pydict option"

text \<open>\<open>verify\<close> of section 4.4: signature, then expiry and audience, then the
  replay guard's \<open>checkAndConsume\<close> when a nonce is present, then the act.\<close>

definition spec_extract_act :: "pydict option \<Rightarrow> verification_error + pydict" where
  "spec_extract_act act =
     (case act of
        Some a \<Rightarrow> if dict_has a ''sub'' then Inr a else Inl MalformedClaim
      | None \<Rightarrow> Inl MalformedClaim)"

definition spec_verify ::
  "string set \<Rightarrow> abs_assertion \<Rightarrow> string \<Rightarrow> int \<Rightarrow> (verification_error + pydict) \<times> string set" where
  "spec_verify consumed a expected_audience now =
     (if \<not> aa_authentic a then (Inl SignatureInvalid, consumed)
      else if (case aa_exp a of Some e \<Rightarrow> e \<le> now | None \<Rightarrow> False) then (Inl Expired, consumed)
      else if aa_aud a \<noteq> Some expected_audience then (Inl AudienceMismatch, consumed)
      else case aa_jti a of
             Some j \<Rightarrow> if j \<in> consumed then (Inl ReplayDetected, consumed)
                       else (spec_extract_act (aa_act a), insert j consumed)
           | None \<Rightarrow> (spec_extract_act (aa_act a), consumed))"

text \<open>The abstraction of a token: authentic when signed with RS256 by the private
  key matching \<open>pub\<close>; an empty \<open>jti\<close> is no nonce (the code's \<open>if jti:\<close>).\<close>

fun abs_token :: "nat \<Rightarrow> jwt \<Rightarrow> abs_assertion" where
  "abs_token pub (JWT alg p key) =
     \<lparr>aa_authentic = (alg = RS256 \<and> key = PrivKey pub), aa_exp = pl_exp p, aa_aud = pl_aud p,
      aa_jti = (case pl_jti p of Some j \<Rightarrow> if j = [] then None else Some j | None \<Rightarrow> None),
      aa_act = pl_act p\<rparr>"
| "abs_token pub (Malformed s) =
     \<lparr>aa_authentic = False, aa_exp = None, aa_aud = None, aa_jti = None, aa_act = None\<rparr>"

text \<open>The abstraction of the verifier's exceptions: its messages name the
  taxonomy's errors; a missing audience is an audience mismatch, and every other
  decoding failure (malformed token, algorithm not allowed) is a signature failure.\<close>

definition abs_error :: "py_exc \<Rightarrow> verification_error" where
  "abs_error e =
     (if e = ValueError ''Act JWT expired'' then Expired
      else if e = ValueError ''Act JWT invalid audience'' then AudienceMismatch
      else if e = ValueError (''Act JWT invalid: '' @ jwt_error_str (MissingRequiredClaimError ''aud'')) then AudienceMismatch
      else if e = ValueError ''Act JWT replay detected'' then ReplayDetected
      else if e = ValueError ''Act JWT must contain act.sub'' then MalformedClaim
      else SignatureInvalid)"

definition abs_result :: "(py_exc + pydict) \<times> 'ad oos_handler \<Rightarrow> (verification_error + pydict) \<times> string set" where
  "abs_result r = (map_sum abs_error id (fst r), used_jtis (snd r))"

subsection \<open>Refinement\<close>

lemma act_check_refines: "map_sum abs_error id (act_check act) = spec_extract_act act"
  by (auto simp: act_check_def spec_extract_act_def abs_error_def py_truthy_def split: option.splits)

text \<open>C21 (refinement): \<open>receive_and_verify_act_jwt\<close> implements the spec's
  verifier: on every token, state and time, its result and its replay store,
  abstracted, are what \<open>spec_verify\<close> gives on the abstract assertion and the set of
  consumed nonces. In particular no claim is trusted before the signature check and
  no error other than the replay error consumes or skips a nonce.\<close>

theorem verifier_refines_spec:
  "abs_result (receive_and_verify_act_jwt st t aud now) =
     spec_verify (used_jtis st) (abs_token (app_public_key st) t) aud now"
proof (cases t)
  case (Malformed s)
  then show ?thesis
    by (simp add: abs_result_def receive_and_verify_act_jwt_def spec_verify_def abs_error_def)
next
  case (JWT alg p key)
  then show ?thesis
    by (auto simp: abs_result_def receive_and_verify_act_jwt_def spec_verify_def abs_error_def
        jwt_sig_valid_def jwt_expired_def replay_check_def act_check_refines
        split: option.splits if_splits)
qed

end
