(* ===== verification/Spec2Isabelle.thy ===== *)
theory Spec2Isabelle
  imports Orchestrators ReplayGuard ApiCall Adapters Config Legacy VerifierSpec
begin

text \<open>
  \<^bold>\<open>AGBAC-Min: a verification development.\<close>

  AGBAC-Min (src/agbac-min) lets an AI agent obtain an OAuth token that names both the
  agent (\<open>sub\<close>) and the human it acts for (\<open>act\<close>). The application holding the
  human's session extracts the act claim and either hands it to an in-process agent
  (in-session) or signs it into a short-lived JWT for a remote agent
  (out-of-session); the agent verifies the JWT, checks its nonce against a replay
  store, and asks a vendor adapter for the dual-subject token.

  \<^bold>\<open>Theories and what they model.\<close>
  \<^item> \<open>Prelude\<close>: Python values. A \<open>Dict[str, str]\<close> is an insertion-ordered
    association list (\<open>pydict\<close>, \<open>dict_get\<close>, \<open>dict_has\<close>, \<open>dict_set\<close>);
    truthiness and \<open>a or b or c\<close> chains are written out (\<open>py_truthy\<close>,
    \<open>opt_truthy\<close>, \<open>py_or\<close>, \<open>py_or_str\<close>); exceptions are the datatype
    \<open>py_exc\<close> with the messages the code raises, and a call that may raise returns
    \<open>py_exc + 'a\<close>. Shared dict lemmas are collected in \<open>dict_simps\<close>.
  \<^item> \<open>Envelope\<close> (code/python/base_adapter.py): \<open>TokenResponse\<close> as the record
    \<open>token_response\<close>, \<open>_validate_act\<close> as \<open>validate_act\<close>, the spec's ActClaim
    invariant \<open>act_valid\<close>, \<open>TokenRequestError.__str__\<close>.
  \<^item> \<open>Jwt\<close>: the PyJWT calls the code makes, modelled from the spec as a symbolic
    signature scheme: a token is \<open>JWT alg payload key\<close>; \<open>jwt_decode\<close> checks the
    algorithm list, the signature (valid iff made by private key \<open>k\<close> when checked
    with public key \<open>k\<close>), \<open>exp\<close> (expired once \<open>exp \<le> now\<close>) and \<open>aud\<close>, in
    that order.
  \<^item> \<open>HybridSender\<close> (code/python/hybrid_sender.py): the record \<open>hybrid_sender\<close>
    (key path, loaded key), \<open>hybrid_sender_init\<close>, \<open>extract_act_from_session\<close>,
    \<open>prepare_in_session_act\<close>, \<open>prepare_out_of_session_act\<close>. Time
    (\<open>int(time.time())\<close>) and the nonce (\<open>secrets.token_urlsafe(32)\<close>) are
    arguments; key files are a key store from path to key or exception class.
  \<^item> \<open>Verifier\<close> (code/out_of_session_token_request.py): the record
    \<open>oos_handler\<close> (adapter, public key, \<open>_used_jtis\<close>),
    \<open>receive_and_verify_act_jwt\<close> as a state-passing function built from
    \<open>jwt_decode\<close>, \<open>verify_error\<close> (the \<open>except\<close> clauses), \<open>replay_check\<close> (the
    nonce block) and \<open>act_check\<close>; \<open>request_token\<close> as \<open>oos_request_token\<close> with
    the shared \<open>call_adapter\<close> (the \<open>try\<close>/\<open>except\<close> around the adapter).
    \<open>verify_run\<close> runs a sequence of calls on one handler.
  \<^item> \<open>Orchestrators\<close> (code/in_session_token_request.py): \<open>is_request_token\<close>.
    An adapter is a function \<open>adapter_fn\<close> from agent id, act and scopes to a
    token response or an exception: the interface of spec section 4.5, which both
    orchestrators are stated over.
  \<^item> \<open>ReplayGuard\<close>: the nonce check under concurrent verifications, as two step
    relations over threads sharing \<open>_used_jtis\<close>: \<open>code_guard_step\<close>, the source's
    separate membership test and insertion, and \<open>atomic_guard_step\<close>, the spec's
    atomic \<open>checkAndConsume\<close> running \<open>replay_check\<close>, with reachable states
    \<open>code_reach\<close> and \<open>atomic_reach\<close>.
  \<^item> \<open>ApiCall\<close> (code/in_session_api_call.py, code/python/out_of_session_api_call.py):
    the two API callers, their urllib3 \<open>Retry\<close> policy (\<open>retry_policy\<close>, modelled
    from urllib3's documented behaviour: \<open>retry_loop\<close> recurses on the remaining
    retries, sleeps \<open>backoff_time\<close> or the server's \<open>Retry-After\<close>), header
    construction and \<open>call_api\<close>, which returns the result, the requests sent and
    the time slept. The server is a list of attempt outcomes.
  \<^item> \<open>Adapters\<close>: \<open>BaseAdapter\<close> of code/python/base_adapter.py (construction,
    \<open>validate_adapter_config\<close>, the logging helpers as the records they emit, the
    digest an input function) and the vendor adapters of agents/python/adapters
    (Auth0, Okta, EntraID): payload, body encoding, one POST to a provider function,
    \<open>raise_for_status\<close>, and the success log line with \<open>str(act)\<close> (\<open>py_dict_repr\<close>,
    Python's \<open>repr\<close> written out in the prelude). \<open>form_encode\<close> is the requests
    library's form encoding.
  \<^item> \<open>Config\<close> (code/python/agbac_config.py): \<open>get_config\<close> over the environment
    (\<open>environ\<close>) and the file system (\<open>filesystem\<close>) as inputs, split as the code
    checks: \<open>normalize_vendor\<close>, \<open>common_config\<close> (vendor, client id and secret),
    \<open>vendor_config\<close> dispatching to the four vendor loaders, then
    \<open>validate_https_url\<close> and \<open>validate_url_format\<close> over \<open>urlsplit\<close> (the library's
    scheme/netloc split, modelled from its documentation). Python's \<open>str.strip\<close>,
    \<open>str.lower\<close> and the sum-type bind \<open>exc_bind\<close> are in the prelude.
  \<^item> \<open>VerifierSpec\<close>: the spec's Out-of-Session Verifier and Replay Guard contract
    (\<open>spec_verify\<close> over an abstract assertion and the set of consumed nonces, with
    the error taxonomy \<open>verification_error\<close>) and the abstraction functions
    \<open>abs_token\<close>, \<open>abs_error\<close>, \<open>abs_result\<close> from the code's values.
  \<^item> \<open>Legacy\<close> (agents/python: sender, requesters, API caller): the older sender
    (\<open>legacy_prepare_out_of_session_act\<close>, whose payload has no \<open>jti\<close>) and the
    requesters, with Python's \<open>from m import n\<close> (\<open>import_from\<close>) and argument
    binding (\<open>bind_call\<close>) written out so that each call is checked against the
    callee's signature; the vendor adapters appear as objects (\<open>auth0_object\<close>, ...).

  \<^bold>\<open>What is proved\<close> (claim ids C1 to C40).
  \<^item> Protocol: the out-of-session round trip returns the original act and consumes
    the nonce (C1); the spec's end-to-end scenario, including its expiry boundary
    (C18); both pipelines hand the adapter exactly the act extracted from the
    session (C19, C20).
  \<^item> Verifier: acceptance is characterised exactly (C3); signature before claims
    (C4), algorithm pinning (C5), expiry (C6) and audience (C7) errors leave the
    store unchanged; in every run an assertion with a nonce is accepted at most once
    (C2); an empty \<open>sub\<close> is accepted (C14, a divergence); the verifier refines
    the spec's \<open>verify\<close>/\<open>checkAndConsume\<close> contract, abstracted to its error
    taxonomy and set of consumed nonces (C21).
  \<^item> Replay guard: the source's two-step check lets two concurrent verifications
    with one nonce both succeed (C8, a code bug); the atomic contract never does
    (C9).
  \<^item> Sender: extracted acts are well-formed and valid (C10), a session without an
    email fails (C11), the three guards of \<open>prepare_out_of_session_act\<close> (C12), a
    non-positive TTL is accepted and yields an assertion that is always expired
    (C13, a divergence).
  \<^item> Orchestrators and envelope: an adapter's HTTP error loses its status code
    (C15, a divergence), invalid inputs never reach the adapter (C16),
    \<open>_validate_act\<close> is exactly the ActClaim invariant (C17), \<open>TokenResponse\<close>
    prints without its secrets (C34).
  \<^item> API callers: the headers (C22), the number of requests
    and the sleep bounded by the policy when the server sends no \<open>Retry-After\<close>
    (C23), unbounded otherwise (C24, a spec gap), the two callers agree (C25).
  \<^item> Adapters: construction and configuration checks (C26, C27), redaction of the
    error context (C28), of the start and success logs (C35); each vendor adapter's
    one request and its errors (C30); EntraID's form body drops the act's values
    (C31, a code bug); the vendor adapters accept an http token URL (C32) and log
    the act's values (C33), divergences.
  \<^item> Configuration: a loaded configuration's shape (C36); \<open>_validate_url_format\<close>
    hides its own messages behind a generic wrapper (C37, a code bug); the vendor
    argument is case- and whitespace-insensitive (C38); every loaded configuration
    builds a \<open>BaseAdapter\<close>, and EntraID's key file is readable (C39).
  \<^item> Legacy code: the requesters fail to import and their calls never bind (C29, a
    code bug); the legacy sender's assertion, having no \<open>jti\<close>, is accepted by the
    verifier any number of times (C40).

  \<^bold>\<open>Not modelled, and why.\<close> The logger calls themselves (their records are
  modelled where a property is about them); HTTP transport (requests sessions, TLS)
  and the providers, which are inputs; the JWT wire encoding (base64, JSON),
  abstracted by the symbolic token; PyJWT's \<open>iat\<close>/\<open>nbf\<close> checks and leeway, not
  used by the code's options; logger warnings of the configuration loader; the
  permission warning of \<open>_validate_file_exists\<close>; \<open>urlsplit\<close>'s validation of
  bracketed IPv6 hosts beyond bracket balance; the outer \<open>except Exception\<close> of
  \<open>get_config\<close>, unreachable because every helper raises only
  \<open>ConfigurationError\<close>. The tests (agents/python/tests) call live providers and are
  not part of the implementation.
  Fuel and bounds: the retry loop recurses on the policy's remaining retries, so it
  needs no fuel; every other definition is non-recursive or structurally recursive.
\<close>

subsection \<open>Lemmas shared by the protocol properties\<close>

lemma https_truthy: "startswith aud ''https://'' \<Longrightarrow> py_truthy aud"
  by (auto simp: py_truthy_def dest: startswith_nonempty)

lemma prepare_ok:
  assumes "private_key sndr = Some k" "py_truthy act" "dict_has act ''sub''" "startswith aud ''https://''"
  shows "prepare_out_of_session_act sndr act aud ttl now jti =
           Inr (JWT RS256 (out_of_session_payload act aud ttl now jti) (PrivKey k))"
  using assms https_truthy [OF assms(4)] by (simp add: prepare_out_of_session_act_def jwt_encode_def)

lemma verify_prepared:
  assumes "app_public_key st = k" "py_truthy act" "dict_has act ''sub''"
    and "jti \<noteq> []" "jti \<notin> used_jtis st" "now' < now + ttl"
  shows "receive_and_verify_act_jwt st (JWT RS256 (out_of_session_payload act aud ttl now jti) (PrivKey k)) aud now' =
           (Inr act, st\<lparr>used_jtis := insert jti (used_jtis st)\<rparr>)"
  using assms by (simp add: out_of_session_payload_def verify_defs)

lemma extract_act_request_ok:
  assumes "extract_act_from_session session = Inr act" "py_truthy agent_id" "py_truthy scopes"
  shows "py_truthy act \<and> dict_has act ''sub'' \<and> request_inputs_ok agent_id act scopes"
  using extract_act_shape [OF assms(1)] assms(2,3)
  by (auto simp: request_inputs_ok_def py_truthy_def)

text \<open>The sender's and the adapters' identifier sanitizers agree except on
  identifiers without \<open>@\<close> that start like an application id.\<close>

lemma sanitizers_agree:
  assumes "\<not> ((startswith i ''0oa'' \<or> startswith i ''a1b2'') \<and> CHR ''@'' \<notin> set i)"
  shows "hs_sanitize_identifier h i = sanitize_identifier h i"
  using assms by (auto simp: hs_sanitize_identifier_def sanitize_identifier_def Let_def)

subsection \<open>Protocol properties\<close>

text \<open>C1 (round trip): for an act claim with a \<open>sub\<close> key and an HTTPS agent
  endpoint, an assertion prepared by a sender holding private key \<open>k\<close> is verified
  by a handler holding public key \<open>k\<close>, at any time before its expiry and with a
  fresh non-empty nonce, into exactly the original act; the nonce is then
  consumed.\<close>

theorem out_of_session_roundtrip:
  assumes "private_key sndr = Some k" "app_public_key st = k"
    and "py_truthy act" "dict_has act ''sub''" "startswith aud ''https://''"
    and "jti \<noteq> []" "jti \<notin> used_jtis st" "now' < now + ttl"
  shows "\<exists>tok. prepare_out_of_session_act sndr act aud ttl now jti = Inr tok \<and>
           receive_and_verify_act_jwt st tok aud now' = (Inr act, st\<lparr>used_jtis := insert jti (used_jtis st)\<rparr>)"
  using prepare_ok [OF assms(1,3,4,5)] verify_prepared [OF assms(2,3,4,6,7,8)] by simp

theorem out_of_session_roundtrip_witness:
  "\<exists>tok. prepare_out_of_session_act \<lparr>private_key_pem = Some ''key.pem'', private_key = Some 1\<rparr>
          [(''sub'', ''alice''), (''email'', ''alice@example.com'')] ''https://agent.example.com'' 60 1000 ''n-1'' = Inr tok \<and>
        receive_and_verify_act_jwt \<lparr>oos_adapter = (), app_public_key = 1, used_jtis = {''n-0''}\<rparr> tok
          ''https://agent.example.com'' 1030 =
        (Inr [(''sub'', ''alice''), (''email'', ''alice@example.com'')],
         \<lparr>oos_adapter = (), app_public_key = 1, used_jtis = {''n-1'', ''n-0''}\<rparr>)"
  using out_of_session_roundtrip [of "\<lparr>private_key_pem = Some ''key.pem'', private_key = Some 1\<rparr>" 1
      "\<lparr>oos_adapter = (), app_public_key = 1, used_jtis = {''n-0''}\<rparr>"
      "[(''sub'', ''alice''), (''email'', ''alice@example.com'')]" "''https://agent.example.com''"
      "''n-1''" 1030 1000 60]
  by (simp add: py_truthy_def)

text \<open>C13 (spec divergence, TTL): \<open>prepare_out_of_session_act\<close> does not check the
  TTL. With \<open>ttl \<le> 0\<close>, where the spec requires \<open>InvalidAssertionRequest\<close>, it
  returns an assertion, and that assertion is rejected as expired by every matching
  verifier at every time from its issue on.\<close>

theorem prepare_accepts_nonpositive_ttl:
  assumes "private_key sndr = Some k" "py_truthy act" "dict_has act ''sub''" "startswith aud ''https://''"
    and "ttl \<le> 0"
  shows "\<exists>tok. prepare_out_of_session_act sndr act aud ttl now jti = Inr tok \<and>
     (\<forall>st now'. app_public_key st = k \<and> now \<le> now' \<longrightarrow>
        receive_and_verify_act_jwt st tok aud now' = (Inl (ValueError ''Act JWT expired''), st))"
  using prepare_ok [OF assms(1-4)] assms(5)
  by (simp add: out_of_session_payload_def verify_defs)

theorem prepare_accepts_nonpositive_ttl_witness:
  "\<exists>tok. prepare_out_of_session_act \<lparr>private_key_pem = Some ''key.pem'', private_key = Some 1\<rparr>
          [(''sub'', ''alice'')] ''https://agent.example.com'' 0 1000 ''n-1'' = Inr tok \<and>
        receive_and_verify_act_jwt \<lparr>oos_adapter = (), app_public_key = 1, used_jtis = {}\<rparr> tok
          ''https://agent.example.com'' 1000 =
        (Inl (ValueError ''Act JWT expired''), \<lparr>oos_adapter = (), app_public_key = 1, used_jtis = {}\<rparr>)"
proof -
  let ?st = "\<lparr>oos_adapter = (), app_public_key = 1, used_jtis = {}\<rparr> :: unit oos_handler"
  obtain tok where t1: "prepare_out_of_session_act \<lparr>private_key_pem = Some ''key.pem'', private_key = Some 1\<rparr>
          [(''sub'', ''alice'')] ''https://agent.example.com'' 0 1000 ''n-1'' = Inr tok"
    and t2: "\<forall>(st :: unit oos_handler) now'. app_public_key st = 1 \<and> 1000 \<le> now' \<longrightarrow>
        receive_and_verify_act_jwt st tok ''https://agent.example.com'' now' = (Inl (ValueError ''Act JWT expired''), st)"
    using prepare_accepts_nonpositive_ttl [of "\<lparr>private_key_pem = Some ''key.pem'', private_key = Some 1\<rparr>" 1
      "[(''sub'', ''alice'')]" "''https://agent.example.com''" 0 1000 "''n-1''"]
    by (auto simp: py_truthy_def)
  have "receive_and_verify_act_jwt ?st tok ''https://agent.example.com'' 1000 = (Inl (ValueError ''Act JWT expired''), ?st)"
    using t2 [rule_format, of ?st 1000] by simp
  with t1 show ?thesis by blast
qed



text \<open>C19 (functional, in-session pipeline): for an act extracted from a session, the
  in-session path (\<open>prepare_in_session_act\<close>, then \<open>InSessionTokenRequest.request_token\<close>)
  passes the input guard and calls the adapter with exactly that act.\<close>

theorem in_session_pipeline:
  assumes "extract_act_from_session session = Inr act" "py_truthy agent_id" "py_truthy scopes"
  shows "is_request_token h agent_id (prepare_in_session_act act) scopes =
           call_adapter (is_adapter h) agent_id act scopes"
  using extract_act_request_ok [OF assms]
  by (simp add: is_request_token_def prepare_in_session_act_def)

theorem in_session_pipeline_witness:
  "let session = [(''email'', ''alice@example.com''), (''name'', ''Alice'')];
       act = [(''sub'', ''alice@example.com''), (''email'', ''alice@example.com''), (''name'', ''Alice'')];
       h = \<lparr>is_adapter = (\<lambda>_ _ _. Inr \<lparr>access_token = ''tok'', token_type = ''Bearer'', expires_in = 300,
              scope = ''read'', act_assertion = None\<rparr>)\<rparr>
   in extract_act_from_session session = Inr act \<and>
      is_request_token h ''agent-1'' (prepare_in_session_act act) [''read''] = call_adapter (is_adapter h) ''agent-1'' act [''read'']"
proof -
  have e: "extract_act_from_session [(''email'', ''alice@example.com''), (''name'', ''Alice'')] =
      Inr [(''sub'', ''alice@example.com''), (''email'', ''alice@example.com''), (''name'', ''Alice'')]"
    by (simp add: extract_act_from_session_def py_truthy_def dict_set_def Let_def)
  show ?thesis
    using e in_session_pipeline [OF e, of "''agent-1''" "[''read'']"] by (simp add: py_truthy_def)
qed

text \<open>C20 (functional, out-of-session pipeline): an act extracted from a session,
  signed by the application and verified by the agent before expiry with a fresh
  nonce, reaches \<open>OutOfSessionTokenRequest.request_token\<close> unchanged: the adapter is
  called with exactly the act the application extracted.\<close>

theorem out_of_session_pipeline:
  assumes "extract_act_from_session session = Inr act"
    and "private_key sndr = Some k" "app_public_key st = k" "startswith aud ''https://''"
    and "jti \<noteq> []" "jti \<notin> used_jtis st" "now' < now + ttl"
    and "py_truthy agent_id" "py_truthy scopes"
  shows "\<exists>tok. prepare_out_of_session_act sndr act aud ttl now jti = Inr tok \<and>
     (case receive_and_verify_act_jwt st tok aud now' of
        (Inr act', st') \<Rightarrow> oos_request_token st' agent_id act' scopes = call_adapter (oos_adapter st) agent_id act scopes
      | (Inl e, st') \<Rightarrow> False)"
proof -
  have ok: "py_truthy act \<and> dict_has act ''sub'' \<and> request_inputs_ok agent_id act scopes"
    using extract_act_request_ok [OF assms(1,8,9)] .
  then have p: "prepare_out_of_session_act sndr act aud ttl now jti =
           Inr (JWT RS256 (out_of_session_payload act aud ttl now jti) (PrivKey k))"
    using prepare_ok [OF assms(2) _ _ assms(4)] by simp
  have v: "receive_and_verify_act_jwt st (JWT RS256 (out_of_session_payload act aud ttl now jti) (PrivKey k)) aud now' =
           (Inr act, st\<lparr>used_jtis := insert jti (used_jtis st)\<rparr>)"
    using ok verify_prepared [OF assms(3) _ _ assms(5,6,7)] by simp
  show ?thesis using p v ok by (simp add: oos_request_token_def)
qed

theorem out_of_session_pipeline_witness:
  "let session = [(''email'', ''alice@example.com'')];
       act = [(''sub'', ''alice@example.com''), (''email'', ''alice@example.com'')];
       st = \<lparr>oos_adapter = (\<lambda>_ _ _. Inl (HTTPError 401)), app_public_key = 1, used_jtis = {}\<rparr>
   in extract_act_from_session session = Inr act \<and>
      (\<exists>tok. prepare_out_of_session_act \<lparr>private_key_pem = Some ''key.pem'', private_key = Some 1\<rparr>
               act ''https://agent.example.com'' 60 1000 ''n-1'' = Inr tok \<and>
        (case receive_and_verify_act_jwt st tok ''https://agent.example.com'' 1010 of
           (Inr act', st') \<Rightarrow> oos_request_token st' ''agent-1'' act' [''read''] =
                                call_adapter (oos_adapter st) ''agent-1'' act [''read'']
         | (Inl e, st') \<Rightarrow> False))"
proof -
  have e: "extract_act_from_session [(''email'', ''alice@example.com'')] =
      Inr [(''sub'', ''alice@example.com''), (''email'', ''alice@example.com'')]"
    by (simp add: extract_act_from_session_def py_truthy_def Let_def)
  show ?thesis
    using e out_of_session_pipeline [OF e, of "\<lparr>private_key_pem = Some ''key.pem'', private_key = Some 1\<rparr>" 1
        "\<lparr>oos_adapter = (\<lambda>_ _ _. Inl (HTTPError 401)), app_public_key = 1, used_jtis = {}\<rparr>"
        "''https://agent.example.com''" "''n-1''" 1010 1000 60 "''agent-1''" "[''read'']"]
    unfolding Let_def by (simp add: py_truthy_def)
qed

subsection \<open>Configuration and adapters\<close>

text \<open>C39 (functional, composition): a configuration returned by \<open>get_config\<close>
  always constructs a \<open>BaseAdapter\<close>, whose token URL is the configured one and
  whose client id and secret are the stripped \<open>AGENT_CLIENT_ID\<close> and
  \<open>AGENT_CLIENT_SECRET\<close>; for EntraID the configured key path is a readable file.\<close>

theorem config_builds_adapter:
  assumes "get_config env fs vendor0 = Inr cfg"
  shows "\<exists>a. base_adapter_init cfg = Inr a \<and> ba_token_url a = the (dict_get cfg ''token_url'') \<and>
           ba_client_id a = py_strip (getenv env ''AGENT_CLIENT_ID'' []) \<and>
           ba_client_secret a = py_strip (getenv env ''AGENT_CLIENT_SECRET'' []) \<and>
           (normalize_vendor env vendor0 = ''entraid'' \<longrightarrow>
              (\<exists>fi. fs (the (dict_get cfg ''app_private_key_path'')) = Some fi \<and> fi_is_file fi \<and> fi_readable fi))"
proof -
  obtain i s u where c: "common_config env (normalize_vendor env vendor0) = Inr (i, s)"
    and v: "vendor_config env fs (normalize_vendor env vendor0) i s = Inr cfg"
    and t: "dict_get cfg ''token_url'' = Some u" "startswith u ''https://''"
    using assms by (rule get_config_Inr)
  note ci = common_config_Inr [OF c]
  from vendor_config_Inr [OF v] t ci show ?thesis
    by (auto simp: base_adapter_init_def missing_fields_def Let_def)
qed

theorem config_builds_adapter_witness:
  "\<exists>a. base_adapter_init keycloak_example_config = Inr a \<and> ba_client_id a = ''finance-agent''"
  using config_builds_adapter [OF get_config_keycloak_example]
  by (simp add: keycloak_example_env_def getenv_def py_strip_def py_is_space_def) blast

subsection \<open>The legacy sender and the verifier\<close>

lemma legacy_assertion_verifies:
  assumes "app_public_key st = k" "now' < now + ttl" "py_truthy act" "dict_has act ''sub''"
  shows "receive_and_verify_act_jwt st (jwt_encode (legacy_payload act now ttl aud) (PrivKey k) RS256) aud now' =
           (Inr act, st)"
  using assms by (simp add: legacy_payload_def jwt_encode_def verify_defs)

text \<open>C40 (safety, composition): an assertion signed by the legacy sender carries
  no \<open>jti\<close>, which the spec's wire format requires, and the verifier skips its
  replay check when \<open>jti\<close> is absent: the same assertion, presented any number of
  times before it expires, is accepted every time and leaves the replay store
  unchanged.\<close>

theorem legacy_assertion_replayable:
  assumes "legacy_prepare_out_of_session_act load s act aud ttl now = Inr tok"
    and "app_public_key st = k" "load (the (ls_private_key_pem s)) = Inr k"
    and "now' < now + ttl" "py_truthy act" "dict_has act ''sub''"
  shows "verify_run st (replicate n (tok, aud, now')) = (replicate n (Inr act), st)"
proof -
  have tok: "tok = jwt_encode (legacy_payload act now ttl aud) (PrivKey k) RS256"
    using assms(1,3) by (auto simp: legacy_prepare_out_of_session_act_def split: if_splits)
  show ?thesis
  proof (induction n)
    case (Suc n)
    then show ?case
      using legacy_assertion_verifies [OF assms(2,4,5,6), of aud] by (simp add: tok)
  qed simp
qed

theorem legacy_assertion_replayable_witness:
  "verify_run \<lparr>oos_adapter = (), app_public_key = 7, used_jtis = {}\<rparr>
      (replicate 3 (JWT RS256 (legacy_payload [(''sub'', ''alice'')] 100 60 ''https://agent.example.com'') (PrivKey 7),
                    ''https://agent.example.com'', 120)) =
   (replicate 3 (Inr [(''sub'', ''alice'')]), \<lparr>oos_adapter = (), app_public_key = 7, used_jtis = {}\<rparr>)"
proof -
  have h: "legacy_prepare_out_of_session_act (\<lambda>_. Inr 7) (legacy_sender_init (Some ''pem'') True) [(''sub'', ''alice'')]
      ''https://agent.example.com'' 60 100 =
      Inr (JWT RS256 (legacy_payload [(''sub'', ''alice'')] 100 60 ''https://agent.example.com'') (PrivKey 7))"
    by (simp add: legacy_prepare_out_of_session_act_def legacy_sender_init_def jwt_encode_def)
  show ?thesis
    using legacy_assertion_replayable [OF h, of "\<lparr>oos_adapter = (), app_public_key = 7, used_jtis = {}\<rparr>" 7 120 3]
    by (simp add: legacy_sender_init_def py_truthy_def)
qed

end
